theory Spec2Isabelle
  imports Main "HOL-Library.Sublist"
begin

section \<open>JavaScript values and the operators the handlers use\<close>

text \<open>
  The service is one JavaScript module (\<^verbatim>\<open>src/index.js\<close>). Its handlers work on
  untyped trees: the value \<^verbatim>\<open>res.json()\<close> parsed from a reply, or the tree the XML
  parser built. \<open>jsval\<close> is that tree. An object is the list of its own properties
  (the first binding of a key is the property); \<open>JUndefined\<close> is what reading a
  missing property gives, and what \<^verbatim>\<open>JSON.stringify\<close> leaves out of an object.

  Scope of the model. Strings are \<open>char\<close> lists: an ASCII character stands for
  itself and the two non-ASCII literals of the source are written as their UTF-8 bytes;
  \<open>toLowerCase\<close>, the \<^verbatim>\<open>/i\<close> flag and the white space of \<^verbatim>\<open>parseInt\<close> act on
  ASCII only, and \<^verbatim>\<open>slice(0, 280)\<close> is \<open>take 280\<close>, which counts as JavaScript does
  on ASCII text only (a character outside ASCII is one or two UTF-16 units there and two
  to four bytes here). Numbers of a parsed document are integers (\<open>JNum\<close>); the handlers do no
  arithmetic on them. Properties inherited from a prototype are not modelled: of the
  names the handlers read, none is inherited by an object or an array, and the one a
  string inherits (\<^verbatim>\<open>link\<close>, a function) is read only as \<^verbatim>\<open>x.link?.[0]\<close>, which is
  \<^verbatim>\<open>undefined\<close> as for a missing property.
\<close>

datatype jsval =
    JUndefined
  | JNull
  | JBool bool
  | JNum int
  | JStr string
  | JArr "jsval list"
  | JObj "(string \<times> jsval) list"

datatype error =
    TypeError
  | RangeError
  | FetchError
  | AbortError
  | HttpError nat
  | SyntaxError

definition bindE :: "error + 'a \<Rightarrow> ('a \<Rightarrow> error + 'b) \<Rightarrow> error + 'b" where
  "bindE m f = (case m of Inl e \<Rightarrow> Inl e | Inr v \<Rightarrow> f v)"

fun mapE :: "('a \<Rightarrow> error + 'b) \<Rightarrow> 'a list \<Rightarrow> error + 'b list" where
  "mapE f [] = Inr []"
| "mapE f (x # xs) = bindE (f x) (\<lambda>y. bindE (mapE f xs) (\<lambda>ys. Inr (y # ys)))"

fun filterE :: "('a \<Rightarrow> error + bool) \<Rightarrow> 'a list \<Rightarrow> error + 'a list" where
  "filterE p [] = Inr []"
| "filterE p (x # xs) =
     bindE (p x) (\<lambda>b. bindE (filterE p xs) (\<lambda>ys. Inr (if b then x # ys else ys)))"

text \<open>Truthiness, as \<^verbatim>\<open>||\<close> and \<^verbatim>\<open>?:\<close> test it.\<close>

fun truthy :: "jsval \<Rightarrow> bool" where
  "truthy JUndefined = False"
| "truthy JNull = False"
| "truthy (JBool b) = b"
| "truthy (JNum n) = (n \<noteq> 0)"
| "truthy (JStr s) = (s \<noteq> [])"
| "truthy (JArr xs) = True"
| "truthy (JObj kvs) = True"

text \<open>\<^verbatim>\<open>a || b\<close> and \<^verbatim>\<open>a ?? b\<close> on values whose evaluation has no effect.\<close>

definition or_js :: "jsval \<Rightarrow> jsval \<Rightarrow> jsval" where
  "or_js a b = (if truthy a then a else b)"

definition nullish :: "jsval \<Rightarrow> bool" where
  "nullish v = (v = JUndefined \<or> v = JNull)"

definition coalesce :: "jsval \<Rightarrow> jsval \<Rightarrow> jsval" where
  "coalesce a b = (if nullish a then b else a)"

text \<open>Reading a property of a value that is not \<^verbatim>\<open>null\<close> or \<^verbatim>\<open>undefined\<close>.\<close>

fun get :: "jsval \<Rightarrow> string \<Rightarrow> jsval" where
  "get (JObj kvs) k = (case map_of kvs k of None \<Rightarrow> JUndefined | Some v \<Rightarrow> v)"
| "get v k = JUndefined"

text \<open>\<^verbatim>\<open>v.k\<close>: a TypeError on \<^verbatim>\<open>null\<close> and \<^verbatim>\<open>undefined\<close>.\<close>

definition readProp :: "jsval \<Rightarrow> string \<Rightarrow> error + jsval" where
  "readProp v k = (if nullish v then Inl TypeError else Inr (get v k))"

text \<open>\<^verbatim>\<open>v?.k\<close>: \<^verbatim>\<open>undefined\<close> on \<^verbatim>\<open>null\<close> and \<^verbatim>\<open>undefined\<close>.\<close>

definition optprop :: "jsval \<Rightarrow> string \<Rightarrow> jsval" where
  "optprop v k = (if nullish v then JUndefined else get v k)"

text \<open>
  \<^verbatim>\<open>v?.[0]\<close>: the first element of an array, the first character of a string, the
  property \<^verbatim>\<open>"0"\<close> of an object.
\<close>

fun optidx0 :: "jsval \<Rightarrow> jsval" where
  "optidx0 (JArr xs) = (case xs of [] \<Rightarrow> JUndefined | x # _ \<Rightarrow> x)"
| "optidx0 (JStr s) = (case s of [] \<Rightarrow> JUndefined | c # _ \<Rightarrow> JStr [c])"
| "optidx0 (JObj kvs) = get (JObj kvs) ''0''"
| "optidx0 v = JUndefined"

text \<open>
  Calling an array method (\<^verbatim>\<open>.filter\<close>, \<^verbatim>\<open>.map\<close>) on a value: any value but an
  array has no such method, and the call is a TypeError.
\<close>

fun asArray :: "jsval \<Rightarrow> error + jsval list" where
  "asArray (JArr xs) = Inr xs"
| "asArray v = Inl TypeError"

text \<open>Calling a string method on a value: a TypeError unless it is a string.\<close>

fun asString :: "jsval \<Rightarrow> error + string" where
  "asString (JStr s) = Inr s"
| "asString v = Inl TypeError"

subsection \<open>Strings\<close>

definition lowerChar :: "char \<Rightarrow> char" where
  "lowerChar c =
     (let n = (of_char c :: nat) in if 65 \<le> n \<and> n \<le> 90 then char_of (n + 32) else c)"

definition upperChar :: "char \<Rightarrow> char" where
  "upperChar c =
     (let n = (of_char c :: nat) in if 97 \<le> n \<and> n \<le> 122 then char_of (n - 32) else c)"

definition toLowerCase :: "string \<Rightarrow> string" where
  "toLowerCase s = map lowerChar s"

text \<open>\<^verbatim>\<open>t.includes(p)\<close>: \<open>p\<close> occurs in \<open>t\<close> as a contiguous run.\<close>

fun str_includes :: "string \<Rightarrow> string \<Rightarrow> bool" where
  "str_includes [] p = (p = [])"
| "str_includes (c # cs) p = (prefix p (c # cs) \<or> str_includes cs p)"

text \<open>
  \<^verbatim>\<open>/(p1|p2|...)/.test(t)\<close> for literal alternatives: one of them occurs in \<open>t\<close>.
\<close>

definition regex_alt_test :: "string list \<Rightarrow> string \<Rightarrow> bool" where
  "regex_alt_test ps t = list_ex (str_includes t) ps"

text \<open>
  The same with the \<^verbatim>\<open>/i\<close> flag: pattern and input characters are compared after
  the canonicalisation of the flag, which maps an ASCII letter to its upper case and
  never maps a character outside ASCII to one inside.
\<close>

definition regex_alt_test_i :: "string list \<Rightarrow> string \<Rightarrow> bool" where
  "regex_alt_test_i ps t = list_ex (\<lambda>p. str_includes (map upperChar t) (map upperChar p)) ps"

subsection \<open>Conversion to a string\<close>

text \<open>
  \<^verbatim>\<open>"prefix" + v\<close>, a template literal and \<^verbatim>\<open>Array.prototype.join\<close> convert a value
  to a string. An integer below \<open>10^21\<close> in magnitude prints in decimal. An array prints
  as its elements joined by commas, \<^verbatim>\<open>null\<close> and \<^verbatim>\<open>undefined\<close> elements as the
  empty string. A parsed object prints as \<^verbatim>\<open>[object Object]\<close>, unless it has an own
  property \<^verbatim>\<open>toString\<close>: that value is not callable, \<^verbatim>\<open>Object.prototype.valueOf\<close>
  returns the object itself, and the conversion is a TypeError.
\<close>

fun decimal_nat :: "nat \<Rightarrow> string" where
  "decimal_nat n =
     (if n < 10 then [char_of (48 + n)]
      else decimal_nat (n div 10) @ [char_of (48 + n mod 10)])"

definition decimal :: "int \<Rightarrow> string" where
  "decimal n = (if n < 0 then CHR ''-'' # decimal_nat (nat (- n)) else decimal_nat (nat n))"

fun toStr :: "jsval \<Rightarrow> error + string"
  and joinStr :: "string \<Rightarrow> jsval list \<Rightarrow> error + string"
  and elemStr :: "jsval \<Rightarrow> error + string"
where
  "toStr JUndefined = Inr ''undefined''"
| "toStr JNull = Inr ''null''"
| "toStr (JBool b) = Inr (if b then ''true'' else ''false'')"
| "toStr (JNum n) = Inr (decimal n)"
| "toStr (JStr s) = Inr s"
| "toStr (JArr xs) = joinStr '','' xs"
| "toStr (JObj kvs) =
     (if map_of kvs ''toString'' = None then Inr ''[object Object]'' else Inl TypeError)"
| "joinStr sep [] = Inr []"
| "joinStr sep [x] = elemStr x"
| "joinStr sep (x # y # ys) =
     bindE (elemStr x) (\<lambda>s. bindE (joinStr sep (y # ys)) (\<lambda>r. Inr (s @ sep @ r)))"
| "elemStr JUndefined = Inr []"
| "elemStr JNull = Inr []"
| "elemStr v = toStr v"

subsection \<open>The clock, dates and the parsers\<close>

text \<open>
  What the module takes from its platform: the clock (\<^verbatim>\<open>Date.now()\<close>), the date
  parser behind \<^verbatim>\<open>new Date(string)\<close> (\<open>None\<close> is an invalid date), the printer
  behind \<^verbatim>\<open>toISOString\<close>, \<^verbatim>\<open>JSON.parse\<close> behind \<^verbatim>\<open>res.json()\<close> and the XML
  parser \<^verbatim>\<open>parseXml\<close> (\<open>None\<close> is a rejected text).
\<close>

record env =
  now :: int
  date_parse :: "string \<Rightarrow> int option"
  iso_string :: "int \<Rightarrow> string"
  json_parse :: "string \<Rightarrow> jsval option"
  xml_parse :: "string \<Rightarrow> jsval option"

text \<open>A time value is valid up to 8.64e15 milliseconds either side of the epoch.\<close>

definition timeClip :: "int \<Rightarrow> int option" where
  "timeClip t = (if \<bar>t\<bar> \<le> 8640000000000000 then Some t else None)"

text \<open>
  \<^verbatim>\<open>new Date(v)\<close>: a string is parsed, an array or object is first converted to a
  string, anything else is converted to a number of milliseconds.
\<close>

fun newDate :: "env \<Rightarrow> jsval \<Rightarrow> error + int option" where
  "newDate env (JStr s) = Inr (date_parse env s)"
| "newDate env (JNum n) = Inr (timeClip n)"
| "newDate env (JBool b) = Inr (Some (if b then 1 else 0))"
| "newDate env JNull = Inr (Some 0)"
| "newDate env JUndefined = Inr None"
| "newDate env v = bindE (toStr v) (\<lambda>s. Inr (date_parse env s))"

text \<open>\<^verbatim>\<open>toISOString\<close> throws a RangeError on an invalid date.\<close>

definition toISOString :: "env \<Rightarrow> int option \<Rightarrow> error + string" where
  "toISOString env d = (case d of None \<Rightarrow> Inl RangeError | Some t \<Rightarrow> Inr (iso_string env t))"

text \<open>
  \<^verbatim>\<open>a || b\<close> where evaluating \<open>b\<close> may throw: \<open>b\<close> is evaluated only when \<open>a\<close> is
  falsy.
\<close>

definition orE :: "jsval \<Rightarrow> error + jsval \<Rightarrow> error + jsval" where
  "orE a b = (if truthy a then Inr a else b)"

section \<open>The bounded fetcher\<close>

text \<open>
  \<^verbatim>\<open>
  async function getJson(url, init = {}) {
    const ctrl = new AbortController();
    const id = setTimeout(() => ctrl.abort(), TIMEOUT_MS);
    try {
      const res = await fetch(url, { ...init, signal: ctrl.signal });
      if (!res.ok) throw new Error(`${res.status} ${res.statusText}`);
      return await res.json();
    } finally { clearTimeout(id); }
  }
  \<close>
  \<open>getText\<close> is the same with \<^verbatim>\<open>res.text()\<close>. What the one outbound call comes to
  is an \<open>upstream\<close>: no connection, the abort of the timer, or a reply with its status
  and body. \<^verbatim>\<open>res.ok\<close> is a status from 200 to 299.
\<close>

datatype request = GET string | POST string string

datatype upstream = NetworkFailure | TimedOut | Reply nat string

definition res_ok :: "nat \<Rightarrow> bool" where
  "res_ok st = (200 \<le> st \<and> st \<le> 299)"

definition getJson :: "env \<Rightarrow> upstream \<Rightarrow> error + jsval" where
  "getJson env up =
     (case up of
        NetworkFailure \<Rightarrow> Inl FetchError
      | TimedOut \<Rightarrow> Inl AbortError
      | Reply st text \<Rightarrow>
          if \<not> res_ok st then Inl (HttpError st)
          else (case json_parse env text of None \<Rightarrow> Inl SyntaxError | Some v \<Rightarrow> Inr v))"

definition getText :: "upstream \<Rightarrow> error + string" where
  "getText up =
     (case up of
        NetworkFailure \<Rightarrow> Inl FetchError
      | TimedOut \<Rightarrow> Inl AbortError
      | Reply st text \<Rightarrow> if \<not> res_ok st then Inl (HttpError st) else Inr text)"

definition parseXml :: "env \<Rightarrow> string \<Rightarrow> error + jsval" where
  "parseXml env text = (case xml_parse env text of None \<Rightarrow> Inl SyntaxError | Some j \<Rightarrow> Inr j)"

section \<open>The severity classifier\<close>

text \<open>
  \<^verbatim>\<open>
  function kwSeverity(s = "") {
    const t = s.toLowerCase();
    if (/(bomb|explosion|blast|airstrike)/.test(t)) return 5;
    if (/(terror|shooting|kidnap|abduction|riot|violent protest|unrest)/.test(t)) return 4;
    return 3;
  }
  \<close>
  The default parameter replaces \<^verbatim>\<open>undefined\<close> only; any other value that is not a
  string has no \<^verbatim>\<open>toLowerCase\<close>.
\<close>

definition kw5 :: "string list" where
  "kw5 = [''bomb'', ''explosion'', ''blast'', ''airstrike'']"

definition kw4 :: "string list" where
  "kw4 = [''terror'', ''shooting'', ''kidnap'', ''abduction'', ''riot'',
          ''violent protest'', ''unrest'']"

definition kwSeverityStr :: "string \<Rightarrow> int" where
  "kwSeverityStr s =
     (let t = toLowerCase s in
      if regex_alt_test kw5 t then 5
      else if regex_alt_test kw4 t then 4
      else 3)"

definition kwSeverity :: "jsval \<Rightarrow> error + int" where
  "kwSeverity s =
     bindE (asString (if s = JUndefined then JStr [] else s)) (\<lambda>str. Inr (kwSeverityStr str))"

section \<open>The item normalizer\<close>

text \<open>
  \<^verbatim>\<open>
  const item = (o) => ({
    id: o.id, ts: o.ts, source: o.source,
    title: o.title, summary: o.summary,
    severity: o.severity ?? 3,
    links: o.links || [],
    lat: o.lat, lng: o.lng
  });
  \<close>
  The argument is an object literal of an adapter; a key the literal does not have
  reads as \<open>JUndefined\<close>.
\<close>

record item =
  item_id :: jsval
  item_ts :: jsval
  item_source :: jsval
  item_title :: jsval
  item_summary :: jsval
  item_severity :: jsval
  item_links :: jsval
  item_lat :: jsval
  item_lng :: jsval

definition item :: "item \<Rightarrow> item" where
  "item ob =
     \<lparr> item_id = item_id ob, item_ts = item_ts ob, item_source = item_source ob,
       item_title = item_title ob, item_summary = item_summary ob,
       item_severity = coalesce (item_severity ob) (JNum 3),
       item_links = or_js (item_links ob) (JArr []),
       item_lat = item_lat ob, item_lng = item_lng ob \<rparr>"

text \<open>
  The object literal every adapter passes: seven keys, no \<^verbatim>\<open>lat\<close> and no \<^verbatim>\<open>lng\<close>.
\<close>

definition literal ::
  "jsval \<Rightarrow> jsval \<Rightarrow> jsval \<Rightarrow> jsval \<Rightarrow> jsval \<Rightarrow> jsval \<Rightarrow> jsval \<Rightarrow> item" where
  "literal i t src ttl summ sev lnks =
     \<lparr> item_id = i, item_ts = t, item_source = src, item_title = ttl, item_summary = summ,
       item_severity = sev, item_links = lnks, item_lat = JUndefined, item_lng = JUndefined \<rparr>"

text \<open>
  The response: \<^verbatim>\<open>res.json(xs)\<close> sends the array with the status 200, which no
  handler changes. \<^verbatim>\<open>JSON.stringify\<close> writes the keys of an item whose value is not
  \<^verbatim>\<open>undefined\<close>.
\<close>

record response =
  status :: nat
  body :: "item list"

definition res_json :: "item list \<Rightarrow> response" where
  "res_json xs = \<lparr> status = 200, body = xs \<rparr>"

definition json_keys :: "item \<Rightarrow> string list" where
  "json_keys it =
     map fst (filter (\<lambda>(k, v). v \<noteq> JUndefined)
       [(''id'', item_id it), (''ts'', item_ts it), (''source'', item_source it),
        (''title'', item_title it), (''summary'', item_summary it),
        (''severity'', item_severity it), (''links'', item_links it),
        (''lat'', item_lat it), (''lng'', item_lng it)])"

text \<open>
  Every handler is \<^verbatim>\<open>try { ... res.json(out) } catch (e) { res.json([]) }\<close>.
\<close>

definition respond :: "error + item list \<Rightarrow> response" where
  "respond r = (case r of Inl e \<Rightarrow> res_json [] | Inr out \<Rightarrow> res_json out)"

section \<open>Query parameters\<close>

text \<open>
  \<^verbatim>\<open>req.query\<close> maps a parameter name to its text; a parameter the request does not
  have reads as \<^verbatim>\<open>undefined\<close>. \<^verbatim>\<open>req.query.k || dflt\<close> takes the default for a
  missing and for an empty parameter. The model covers a parameter that is given at most
  once, which is a string.
\<close>

type_synonym query = "string \<Rightarrow> string option"

definition param_or :: "query \<Rightarrow> string \<Rightarrow> string \<Rightarrow> string" where
  "param_or qry k dflt = (case qry k of None \<Rightarrow> dflt | Some s \<Rightarrow> if s = [] then dflt else s)"

text \<open>
  The numbers of the window arithmetic: an integer or \<^verbatim>\<open>NaN\<close>. \<^verbatim>\<open>parseInt(s, 10)\<close>
  skips leading white space, reads a sign and then the longest run of decimal digits;
  with no digit there it is \<^verbatim>\<open>NaN\<close>. \<^verbatim>\<open>Math.min\<close> and \<^verbatim>\<open>Math.max\<close> are
  \<^verbatim>\<open>NaN\<close> as soon as an argument is. The value of a long run of digits is exact
  here and rounded in JavaScript; both are far above every bound of a window, so the
  clamped result is the same.
\<close>

datatype number = NaN | Finite int

definition isSpace :: "char \<Rightarrow> bool" where
  "isSpace c = (let n = (of_char c :: nat) in (9 \<le> n \<and> n \<le> 13) \<or> n = 32)"

definition isDigit :: "char \<Rightarrow> bool" where
  "isDigit c = (let n = (of_char c :: nat) in 48 \<le> n \<and> n \<le> 57)"

definition digitsVal :: "string \<Rightarrow> int" where
  "digitsVal ds = foldl (\<lambda>a c. 10 * a + (of_char c - 48)) 0 ds"

definition parseInt10 :: "string \<Rightarrow> number" where
  "parseInt10 s =
     (let t = dropWhile isSpace s;
          neg = (case t of [] \<Rightarrow> False | c # _ \<Rightarrow> c = CHR ''-'');
          r = (case t of [] \<Rightarrow> [] | c # cs \<Rightarrow> if c = CHR ''-'' \<or> c = CHR ''+'' then cs else t);
          ds = takeWhile isDigit r
      in if ds = [] then NaN else Finite (if neg then - digitsVal ds else digitsVal ds))"

fun math_min :: "number \<Rightarrow> number \<Rightarrow> number" where
  "math_min (Finite a) (Finite b) = Finite (min a b)"
| "math_min x y = NaN"

fun math_max :: "number \<Rightarrow> number \<Rightarrow> number" where
  "math_max (Finite a) (Finite b) = Finite (max a b)"
| "math_max x y = NaN"

fun numStr :: "number \<Rightarrow> string" where
  "numStr NaN = ''NaN''"
| "numStr (Finite n) = decimal n"

text \<open>
  \<^verbatim>\<open>Math.max(1, Math.min(60, parseInt(req.query.days || "21", 10)))\<close> and
  \<^verbatim>\<open>Math.max(1, Math.min(168, parseInt(req.query.hours || "24", 10)))\<close>.
\<close>

definition days_of :: "query \<Rightarrow> number" where
  "days_of qry = math_max (Finite 1) (math_min (Finite 60) (parseInt10 (param_or qry ''days'' ''21'')))"

definition hours_of :: "query \<Rightarrow> number" where
  "hours_of qry =
     math_max (Finite 1) (math_min (Finite 168) (parseInt10 (param_or qry ''hours'' ''24'')))"

text \<open>
  \<^verbatim>\<open>encodeURIComponent\<close>, on the UTF-8 bytes of the text: every byte but a letter, a
  digit and \<^verbatim>\<open>- _ . ! ~ * ' ( )\<close> becomes \<^verbatim>\<open>%XX\<close>.
\<close>

definition hexDigit :: "nat \<Rightarrow> char" where
  "hexDigit n = (if n < 10 then char_of (48 + n) else char_of (55 + n))"

definition unreserved :: "char \<Rightarrow> bool" where
  "unreserved c =
     (let n = (of_char c :: nat) in
      (65 \<le> n \<and> n \<le> 90) \<or> (97 \<le> n \<and> n \<le> 122) \<or> (48 \<le> n \<and> n \<le> 57) \<or>
      n \<in> {45, 95, 46, 33, 126, 42, 39, 40, 41})"

definition encodeURIComponent :: "string \<Rightarrow> string" where
  "encodeURIComponent s =
     concat (map (\<lambda>c. if unreserved c then [c]
                       else [CHR ''%'', hexDigit (of_char c div 16), hexDigit (of_char c mod 16)]) s)"

section \<open>The government travel-advice endpoint\<close>

text \<open>
  \<^verbatim>\<open>
  const data = await getJson("https://www.gov.uk/api/content/...", {...});
  const d = data?.details || {};
  const change = (d.latest_update || {}).published || data.public_updated_at
                 || new Date().toISOString();
  const out = item({
    id: "govuk:za", ts: change, source: "gov.uk",
    title: "UK travel advice - South Africa",
    summary: d.change_description || d.summary || "Travel advice",
    severity: 3,
    links: ["https://www.gov.uk/foreign-travel-advice/south-africa"]
  });
  res.json([out]);
  \<close>
  The dash of the title is U+2013, written here as its three UTF-8 bytes.
\<close>

definition govuk_request :: request where
  "govuk_request = GET ''https://www.gov.uk/api/content/foreign-travel-advice/south-africa''"

definition govuk_title :: string where
  "govuk_title = ''UK travel advice '' @ [CHR 0xE2, CHR 0x80, CHR 0x93] @ '' South Africa''"

definition govuk_adapt :: "env \<Rightarrow> jsval \<Rightarrow> error + item list" where
  "govuk_adapt env data =
     (let d = or_js (optprop data ''details'') (JObj []) in
      bindE (readProp d ''latest_update'') (\<lambda>lu.
      bindE (readProp (or_js lu (JObj [])) ''published'') (\<lambda>pub.
      bindE (orE pub
              (bindE (readProp data ''public_updated_at'') (\<lambda>pua.
               orE pua
                 (bindE (toISOString env (timeClip (now env))) (\<lambda>s. Inr (JStr s)))))) (\<lambda>change.
      bindE (readProp d ''change_description'') (\<lambda>cd.
      bindE (orE cd
              (bindE (readProp d ''summary'') (\<lambda>sm.
               Inr (or_js sm (JStr ''Travel advice''))))) (\<lambda>summ.
      Inr [item (literal (JStr ''govuk:za'') change (JStr ''gov.uk'') (JStr govuk_title) summ
                  (JNum 3)
                  (JArr [JStr ''https://www.gov.uk/foreign-travel-advice/south-africa'']))]))))))"

definition govuk :: "env \<Rightarrow> (request \<Rightarrow> upstream) \<Rightarrow> response" where
  "govuk env net = respond (bindE (getJson env (net govuk_request)) (govuk_adapt env))"

section \<open>The advisory RSS endpoint\<close>

text \<open>
  \<^verbatim>\<open>
  const xml = await getText("https://travel.state.gov/.../traveladvisories.rss");
  const j = await parseXml(xml);
  const items = (j?.rss?.channel?.[0]?.item || []).filter(x => {
    const title = (x.title?.[0] || "").toLowerCase();
    const descr = (x.description?.[0] || "").toLowerCase();
    return title.includes("south africa") || descr.includes("south africa");
  }).map(x => item({
    id: "us:travel:" + (x.guid?.[0]?._ || x.link?.[0] || x.title?.[0]),
    ts: new Date(x.pubDate?.[0] || Date.now()).toISOString(),
    source: "travel.state.gov",
    title: x.title?.[0] || "US Travel Advisory",
    summary: (x.description?.[0] || "").replace(/<[^>]+>/g, "").slice(0, 280),
    severity: 3,
    links: [x.link?.[0] || "https://travel.state.gov"]
  }));
  res.json(items.slice(0, 5));
  \<close>
\<close>

definition usTravel_request :: request where
  "usTravel_request =
     GET ''https://travel.state.gov/content/travel/en/traveladvisories/traveladvisories.rss''"

text \<open>
  \<^verbatim>\<open>s.replace(/<[^>]+>/g, "")\<close>: a \<^verbatim>\<open><\<close>, at least one character that is not
  \<^verbatim>\<open>>\<close>, and the next \<^verbatim>\<open>>\<close> are removed; the scan goes on behind it.
\<close>

function stripTags :: "string \<Rightarrow> string" where
  "stripTags [] = []"
| "stripTags (c # cs) =
     (if c = CHR ''<'' \<and> takeWhile (\<lambda>x. x \<noteq> CHR ''>'') cs \<noteq> []
          \<and> dropWhile (\<lambda>x. x \<noteq> CHR ''>'') cs \<noteq> []
      then stripTags (tl (dropWhile (\<lambda>x. x \<noteq> CHR ''>'') cs))
      else c # stripTags cs)"
  by pat_completeness auto
termination
proof (relation "measure length")
  show "wf (measure length)" by simp
next
  fix c :: char and cs :: string
  have "length (tl (dropWhile (\<lambda>x. x \<noteq> CHR ''>'') cs)) \<le> length cs"
    using length_dropWhile_le [of "\<lambda>x. x \<noteq> CHR ''>''" cs] by simp
  then show "(tl (dropWhile (\<lambda>x. x \<noteq> CHR ''>'') cs), c # cs) \<in> measure length"
    by simp
next
  fix c :: char and cs :: string
  show "(cs, c # cs) \<in> measure length" by simp
qed

definition rss_items :: "jsval \<Rightarrow> jsval" where
  "rss_items j =
     or_js (optprop (optidx0 (optprop (optprop j ''rss'') ''channel'')) ''item'') (JArr [])"

definition mentionsSA :: "jsval \<Rightarrow> error + bool" where
  "mentionsSA x =
     bindE (readProp x ''title'') (\<lambda>t.
     bindE (asString (or_js (optidx0 t) (JStr []))) (\<lambda>title0.
     bindE (readProp x ''description'') (\<lambda>d.
     bindE (asString (or_js (optidx0 d) (JStr []))) (\<lambda>descr0.
     Inr (str_includes (toLowerCase title0) ''south africa''
          \<or> str_includes (toLowerCase descr0) ''south africa'')))))"

definition usItem :: "env \<Rightarrow> jsval \<Rightarrow> error + item" where
  "usItem env x =
     bindE (readProp x ''guid'') (\<lambda>g.
     bindE (orE (optprop (optidx0 g) ''_'')
             (bindE (readProp x ''link'') (\<lambda>l.
              orE (optidx0 l) (bindE (readProp x ''title'') (\<lambda>t. Inr (optidx0 t)))))) (\<lambda>key.
     bindE (toStr key) (\<lambda>keyStr.
     bindE (readProp x ''pubDate'') (\<lambda>p.
     bindE (newDate env (or_js (optidx0 p) (JNum (now env)))) (\<lambda>date.
     bindE (toISOString env date) (\<lambda>tsStr.
     bindE (readProp x ''title'') (\<lambda>t.
     bindE (readProp x ''description'') (\<lambda>d.
     bindE (asString (or_js (optidx0 d) (JStr []))) (\<lambda>descr.
     bindE (readProp x ''link'') (\<lambda>l.
     Inr (item (literal (JStr (''us:travel:'' @ keyStr)) (JStr tsStr) (JStr ''travel.state.gov'')
                  (or_js (optidx0 t) (JStr ''US Travel Advisory''))
                  (JStr (take 280 (stripTags descr)))
                  (JNum 3)
                  (JArr [or_js (optidx0 l) (JStr ''https://travel.state.gov'')])))))))))))))"

definition usTravel_adapt :: "env \<Rightarrow> jsval \<Rightarrow> error + item list" where
  "usTravel_adapt env j =
     bindE (asArray (rss_items j)) (\<lambda>xs.
     bindE (filterE mentionsSA xs) (\<lambda>kept.
     bindE (mapE (usItem env) kept) (\<lambda>items.
     Inr (take 5 items))))"

definition usTravel :: "env \<Rightarrow> (request \<Rightarrow> upstream) \<Rightarrow> response" where
  "usTravel env net =
     respond (bindE (getText (net usTravel_request)) (\<lambda>xml.
              bindE (parseXml env xml) (usTravel_adapt env)))"

section \<open>The situation-reports endpoint\<close>

text \<open>
  \<^verbatim>\<open>
  const days = Math.max(1, Math.min(60, parseInt(req.query.days || "21", 10)));
  const body = { appname: "guardian360", filter: { ...
        { field: "date.created", value: { from: `now-${days}d` } } ] },
    fields: { include: ["title","url","date.created","theme.name","source.name"] },
    limit: 30, profile: "list" };
  const data = await getJson("https://api.reliefweb.int/v1/reports?profile=list",
    { method: "POST", headers: {...}, body: JSON.stringify(body) });
  const out = (data?.data || []).map(d => {
    const f = d.fields || {};
    const themes = (f.theme || []).map(x => x.name).join(", ");
    return item({
      id: "rw:" + d.id, ts: f["date.created"], source: "reliefweb",
      title: f.title, summary: themes,
      severity: /Epidemic|Conflict|Security|Protection/i.test(themes) ? 4 : 3,
      links: [f.url]
    });
  });
  res.json(out);
  \<close>
\<close>

definition reliefweb_body :: "number \<Rightarrow> string" where
  \<open>reliefweb_body days =
     ''{"appname":"guardian360","filter":{"operator":"AND","conditions":['' @
     ''{"field":"primary_country.name","value":"South Africa"},'' @
     ''{"operator":"OR","conditions":['' @
     ''{"field":"theme.name","value":"Safety and Security"},'' @
     ''{"field":"theme.name","value":"Protection and Human Rights"},'' @
     ''{"field":"theme.name","value":"Health"}]},'' @
     ''{"field":"date.created","value":{"from":"now-'' @ numStr days @ ''d"}}]},'' @
     ''"fields":{"include":["title","url","date.created","theme.name","source.name"]},'' @
     ''"limit":30,"profile":"list"}''\<close>

definition reliefweb_request :: "query \<Rightarrow> request" where
  "reliefweb_request qry =
     POST ''https://api.reliefweb.int/v1/reports?profile=list'' (reliefweb_body (days_of qry))"

definition rw_keywords :: "string list" where
  "rw_keywords = [''Epidemic'', ''Conflict'', ''Security'', ''Protection'']"

definition rw_themes :: "jsval \<Rightarrow> error + string" where
  "rw_themes f =
     bindE (readProp f ''theme'') (\<lambda>th.
     bindE (asArray (or_js th (JArr []))) (\<lambda>ts.
     bindE (mapE (\<lambda>x. readProp x ''name'') ts) (\<lambda>names.
     joinStr '', '' names)))"

definition rwItem :: "jsval \<Rightarrow> error + item" where
  "rwItem d =
     bindE (readProp d ''fields'') (\<lambda>fs.
     (let f = or_js fs (JObj []) in
      bindE (rw_themes f) (\<lambda>themes.
      bindE (readProp d ''id'') (\<lambda>i.
      bindE (toStr i) (\<lambda>idStr.
      bindE (readProp f ''date.created'') (\<lambda>created.
      bindE (readProp f ''title'') (\<lambda>ttl.
      bindE (readProp f ''url'') (\<lambda>u.
      Inr (item (literal (JStr (''rw:'' @ idStr)) created (JStr ''reliefweb'') ttl (JStr themes)
                  (JNum (if regex_alt_test_i rw_keywords themes then 4 else 3))
                  (JArr [u])))))))))))"

definition reliefweb_adapt :: "jsval \<Rightarrow> error + item list" where
  "reliefweb_adapt data =
     bindE (asArray (or_js (optprop data ''data'') (JArr []))) (mapE rwItem)"

definition reliefweb :: "env \<Rightarrow> (request \<Rightarrow> upstream) \<Rightarrow> query \<Rightarrow> response" where
  "reliefweb env net qry =
     respond (bindE (getJson env (net (reliefweb_request qry))) reliefweb_adapt)"

section \<open>The news-events endpoint\<close>

text \<open>
  \<^verbatim>\<open>
  const q = req.query.q || '(South Africa) (murder OR explosion OR bomb OR protest OR
                            riot OR kidnapping OR shooting)';
  const hours = Math.max(1, Math.min(168, parseInt(req.query.hours || "24", 10)));
  const url = `https://api.gdeltproject.org/api/v2/doc/doc?query=${encodeURIComponent(q)}
               &mode=ArtList&maxrecords=50&format=json&TIMESPAN=${hours}HRS`;
  const data = await getJson(url);
  const arts = data?.articles || [];
  const out = arts.map(a => item({
    id: "gdelt:" + (a.url || a.title),
    ts: new Date(a.seendate || a.timestamp || Date.now()).toISOString(),
    source: "gdelt",
    title: a.title,
    summary: a.sourceCountry ? `${a.domain} * ${a.sourceCountry}` : a.domain,
    severity: kwSeverity(`${a.title} ${a.url}`),
    links: [a.url]
  }));
  res.json(out);
  \<close>
  The separator of the summary is U+2022 between two spaces, written here as its
  UTF-8 bytes.
\<close>

definition gdelt_default_q :: string where
  "gdelt_default_q =
     ''(South Africa) (murder OR explosion OR bomb OR protest OR riot OR kidnapping OR shooting)''"

definition gdelt_request :: "query \<Rightarrow> request" where
  "gdelt_request qry =
     GET (''https://api.gdeltproject.org/api/v2/doc/doc?query='' @
          encodeURIComponent (param_or qry ''q'' gdelt_default_q) @
          ''&mode=ArtList&maxrecords=50&format=json&TIMESPAN='' @
          numStr (hours_of qry) @ ''HRS'')"

definition bullet :: string where
  "bullet = [CHR '' '', CHR 0xE2, CHR 0x80, CHR 0xA2, CHR '' '']"

definition gdeltItem :: "env \<Rightarrow> jsval \<Rightarrow> error + item" where
  "gdeltItem env a =
     bindE (readProp a ''url'') (\<lambda>u.
     bindE (orE u (readProp a ''title'')) (\<lambda>key.
     bindE (toStr key) (\<lambda>keyStr.
     bindE (readProp a ''seendate'') (\<lambda>seen.
     bindE (orE seen (readProp a ''timestamp'')) (\<lambda>stamp.
     bindE (newDate env (or_js stamp (JNum (now env)))) (\<lambda>date.
     bindE (toISOString env date) (\<lambda>tsStr.
     bindE (readProp a ''title'') (\<lambda>ttl.
     bindE (readProp a ''sourceCountry'') (\<lambda>country.
     bindE (readProp a ''domain'') (\<lambda>dom.
     bindE (if truthy country
            then bindE (toStr dom) (\<lambda>ds. bindE (toStr country) (\<lambda>cs.
                   Inr (JStr (ds @ bullet @ cs))))
            else Inr dom) (\<lambda>summ.
     bindE (toStr ttl) (\<lambda>titleStr.
     bindE (toStr u) (\<lambda>urlStr.
     bindE (kwSeverity (JStr (titleStr @ '' '' @ urlStr))) (\<lambda>sev.
     Inr (item (literal (JStr (''gdelt:'' @ keyStr)) (JStr tsStr) (JStr ''gdelt'') ttl summ
                  (JNum sev) (JArr [u])))))))))))))))))"

definition gdelt_adapt :: "env \<Rightarrow> jsval \<Rightarrow> error + item list" where
  "gdelt_adapt env data =
     bindE (asArray (or_js (optprop data ''articles'') (JArr []))) (mapE (gdeltItem env))"

definition gdelt :: "env \<Rightarrow> (request \<Rightarrow> upstream) \<Rightarrow> query \<Rightarrow> response" where
  "gdelt env net qry =
     respond (bindE (getJson env (net (gdelt_request qry))) (gdelt_adapt env))"

section \<open>Sample documents and a sample platform\<close>

text \<open>
  Concrete inputs for the examples below: parsed documents, and a platform that knows
  the clock reading, the date strings and the reply texts the examples use, and rejects
  every other text. \<open>sample_feed\<close> is the tree the XML parser builds for
  \<^verbatim>\<open><rss><channel><item>...</item>...</channel></rss>\<close>: every child element is an
  array of its occurrences, a text-only element is its text.
\<close>

definition rss_entry :: "string \<Rightarrow> string \<Rightarrow> string \<Rightarrow> jsval" where
  "rss_entry ttl descr pub =
     JObj [(''title'', JArr [JStr ttl]), (''description'', JArr [JStr descr]),
           (''pubDate'', JArr [JStr pub])]"

definition feed_of :: "jsval list \<Rightarrow> jsval" where
  "feed_of entries = JObj [(''rss'', JObj [(''channel'', JArr [JObj [(''item'', JArr entries)]])])]"

definition sample_date :: string where
  "sample_date = ''Mon, 01 Jan 2024 00:00:00 GMT''"

definition sample_feed :: jsval where
  "sample_feed = feed_of
     [rss_entry ''Kenya - Level 2'' ''<p>Exercise increased caution in Kenya.</p>'' sample_date,
      rss_entry ''South Africa - Level 2'' ''<p>Exercise <b>increased</b> caution.</p>'' sample_date,
      rss_entry ''Brazil - Level 2'' ''<p>Exercise increased caution in Brazil.</p>'' sample_date,
      rss_entry ''Lesotho - Level 1'' ''<p>Most visitors arrive from SOUTH AFRICA.</p>'' sample_date,
      rss_entry ''France - Level 2'' ''<p>Exercise increased caution in France.</p>'' sample_date,
      JObj [(''title'', JArr [JStr ''south africa travel alert''])],
      JObj [(''pubDate'', JArr [JStr sample_date])],
      rss_entry ''Japan - Level 1'' ''<p>Exercise normal precautions.</p>'' sample_date]"

definition sample_feed_text :: string where
  "sample_feed_text =
     ''<rss><channel>'' @
     ''<item><title>South Africa - Level 2</title>'' @
     ''<description>Exercise increased caution</description>'' @
     ''<pubDate>Mon, 01 Jan 2024 00:00:00 GMT</pubDate></item>'' @
     ''<item><title>South Africa - Level 3</title>'' @
     ''<description>Reconsider travel</description>'' @
     ''<pubDate>not a date</pubDate></item>'' @
     ''</channel></rss>''"

definition sample_feed_bad_date :: jsval where
  "sample_feed_bad_date = feed_of
     [rss_entry ''South Africa - Level 2'' ''Exercise increased caution'' sample_date,
      rss_entry ''South Africa - Level 3'' ''Reconsider travel'' ''not a date'']"

definition sample_reports_text :: string where
  \<open>sample_reports_text =
     ''{"data":[{"id":"7","fields":{"theme":[{"name":"Health"}],'' @
     ''"url":"https://reliefweb.int/node/7"}}]}''\<close>

definition sample_reports :: jsval where
  "sample_reports =
     JObj [(''data'', JArr [JObj [(''id'', JStr ''7''),
        (''fields'', JObj [(''theme'', JArr [JObj [(''name'', JStr ''Health'')]]),
                           (''url'', JStr ''https://reliefweb.int/node/7'')])]])]"

definition sample_report :: jsval where
  "sample_report =
     JObj [(''id'', JStr ''8''),
        (''fields'', JObj [(''title'', JStr ''Cholera response update''),
           (''theme'', JArr [JObj [(''name'', JStr ''Health'')],
                             JObj [(''name'', JStr ''Protection and Human Rights'')]]),
           (''url'', JStr ''https://reliefweb.int/node/8'')])]"

definition sample_articles_text :: string where
  \<open>sample_articles_text =
     ''{"articles":[{"title":"Protest in Durban","seendate":"2024-01-01T00:00:00Z",'' @
     ''"domain":"example.org"}]}''\<close>

definition sample_articles :: jsval where
  "sample_articles =
     JObj [(''articles'', JArr [JObj [(''title'', JStr ''Protest in Durban''),
        (''seendate'', JStr ''2024-01-01T00:00:00Z''), (''domain'', JStr ''example.org'')]])]"

definition sample_articles_bad_date_text :: string where
  \<open>sample_articles_bad_date_text =
     ''{"articles":['' @
     ''{"url":"https://example.org/a","title":"Protest in Durban",'' @
     ''"seendate":"2024-01-01T00:00:00Z","domain":"example.org"},'' @
     ''{"url":"https://example.org/b","title":"Unrest in Durban",'' @
     ''"seendate":"not a date","domain":"example.org"}]}''\<close>

definition sample_articles_bad_date :: jsval where
  "sample_articles_bad_date =
     JObj [(''articles'', JArr
       [JObj [(''url'', JStr ''https://example.org/a''), (''title'', JStr ''Protest in Durban''),
              (''seendate'', JStr ''2024-01-01T00:00:00Z''), (''domain'', JStr ''example.org'')],
        JObj [(''url'', JStr ''https://example.org/b''), (''title'', JStr ''Unrest in Durban''),
              (''seendate'', JStr ''not a date''), (''domain'', JStr ''example.org'')]])]"

definition sample_advice_text :: string where
  \<open>sample_advice_text =
     ''{"public_updated_at":"2024-01-01T00:00:00Z","details":{"summary":"Latest advice"}}''\<close>

definition sample_advice :: jsval where
  "sample_advice =
     JObj [(''public_updated_at'', JStr ''2024-01-01T00:00:00Z''),
           (''details'', JObj [(''summary'', JStr ''Latest advice'')])]"

definition sample_env :: env where
  "sample_env =
     \<lparr> now = 1704067201000,
       date_parse = map_of [(sample_date, 1704067200000), (''2024-01-01T00:00:00Z'', 1704067200000)],
       iso_string = (\<lambda>t. if t = 1704067200000 then ''2024-01-01T00:00:00.000Z''
                          else if t = 1704067201000 then ''2024-01-01T00:00:01.000Z''
                          else ''2024-01-01T00:00:02.000Z''),
       json_parse = map_of [(''null'', JNull), (''{}'', JObj []),
                            (sample_advice_text, sample_advice),
                            (sample_reports_text, sample_reports),
                            (sample_articles_text, sample_articles),
                            (sample_articles_bad_date_text, sample_articles_bad_date)],
       xml_parse = map_of [(sample_feed_text, sample_feed_bad_date)] \<rparr>"

text \<open>
  The text of a feed whose items have a title, a description and a date, as the XML
  parser reads it back into \<open>feed_of\<close> of \<open>rss_entry\<close>s.
\<close>

definition rss_entry_text :: "string \<Rightarrow> string \<Rightarrow> string \<Rightarrow> string" where
  "rss_entry_text ttl descr pub =
     ''<item><title>'' @ ttl @ ''</title><description>'' @ descr @ ''</description><pubDate>''
       @ pub @ ''</pubDate></item>''"

definition feed_text_of :: "string list \<Rightarrow> string" where
  "feed_text_of entries = ''<rss><channel>'' @ concat entries @ ''</channel></rss>''"

text \<open>
  Eight items of which three mention the country: the second in its title, the fourth in
  its description in upper case, the sixth in its title. The date of the fourth is not a
  date.
\<close>

definition sample_feed_eight :: jsval where
  "sample_feed_eight = feed_of
     [rss_entry ''Kenya - Level 2'' ''Exercise increased caution'' sample_date,
      rss_entry ''South Africa - Level 2'' ''Exercise increased caution'' sample_date,
      rss_entry ''Brazil - Level 2'' ''Exercise increased caution'' sample_date,
      rss_entry ''Lesotho - Level 1'' ''Most visitors arrive from SOUTH AFRICA'' ''not a date'',
      rss_entry ''France - Level 2'' ''Exercise increased caution'' sample_date,
      rss_entry ''South Africa travel alert'' ''Demonstrations'' sample_date,
      rss_entry ''Japan - Level 1'' ''Exercise normal precautions'' sample_date,
      rss_entry ''Peru - Level 2'' ''Exercise increased caution'' sample_date]"

definition sample_feed_eight_text :: string where
  "sample_feed_eight_text = feed_text_of
     [rss_entry_text ''Kenya - Level 2'' ''Exercise increased caution'' sample_date,
      rss_entry_text ''South Africa - Level 2'' ''Exercise increased caution'' sample_date,
      rss_entry_text ''Brazil - Level 2'' ''Exercise increased caution'' sample_date,
      rss_entry_text ''Lesotho - Level 1'' ''Most visitors arrive from SOUTH AFRICA'' ''not a date'',
      rss_entry_text ''France - Level 2'' ''Exercise increased caution'' sample_date,
      rss_entry_text ''South Africa travel alert'' ''Demonstrations'' sample_date,
      rss_entry_text ''Japan - Level 1'' ''Exercise normal precautions'' sample_date,
      rss_entry_text ''Peru - Level 2'' ''Exercise increased caution'' sample_date]"

text \<open>Two matching items, the first with a link and the second without.\<close>

definition sample_feed_links_text :: string where
  "sample_feed_links_text =
     ''<rss><channel>'' @
     ''<item><title>South Africa - Level 2</title>'' @
     ''<link>https://travel.state.gov/za</link>'' @
     ''<pubDate>Mon, 01 Jan 2024 00:00:00 GMT</pubDate></item>'' @
     ''<item><title>Travel to South Africa</title>'' @
     ''<pubDate>Mon, 01 Jan 2024 00:00:00 GMT</pubDate></item>'' @
     ''</channel></rss>''"

definition sample_feed_links :: jsval where
  "sample_feed_links = feed_of
     [JObj [(''title'', JArr [JStr ''South Africa - Level 2'']),
            (''link'', JArr [JStr ''https://travel.state.gov/za'']),
            (''pubDate'', JArr [JStr sample_date])],
      JObj [(''title'', JArr [JStr ''Travel to South Africa'']),
            (''pubDate'', JArr [JStr sample_date])]]"

text \<open>A news reply of one article that has a url.\<close>

definition sample_articles_url_text :: string where
  \<open>sample_articles_url_text =
     ''{"articles":[{"url":"https://example.org/a","title":"Protest in Durban",'' @
     ''"seendate":"2024-01-01T00:00:00Z","domain":"example.org"}]}''\<close>

definition sample_articles_url :: jsval where
  "sample_articles_url =
     JObj [(''articles'', JArr
       [JObj [(''url'', JStr ''https://example.org/a''), (''title'', JStr ''Protest in Durban''),
              (''seendate'', JStr ''2024-01-01T00:00:00Z''), (''domain'', JStr ''example.org'')]])]"

text \<open>The sample platform with parsers that know these two feeds and this reply.\<close>

definition sample_env_feeds :: env where
  "sample_env_feeds =
     sample_env\<lparr>xml_parse := map_of [(sample_feed_eight_text, sample_feed_eight),
                                      (sample_feed_links_text, sample_feed_links)],
                json_parse := map_of [(sample_articles_url_text, sample_articles_url)]\<rparr>"

section \<open>Auxiliary facts\<close>

lemma bindE_Inl [simp]: "bindE (Inl e) f = Inl e"
  by (simp add: bindE_def)

lemma bindE_Inr [simp]: "bindE (Inr v) f = f v"
  by (simp add: bindE_def)

lemma bindE_eq_Inr: "bindE m f = Inr y \<longleftrightarrow> (\<exists>v. m = Inr v \<and> f v = Inr y)"
  by (cases m) simp_all

lemma mapE_eq_Inr: "mapE f xs = Inr ys \<longleftrightarrow> map f xs = map Inr ys"
proof (induction xs arbitrary: ys)
  case Nil
  then show ?case by auto
next
  case (Cons x xs)
  show ?case
  proof (cases "f x")
    case (Inl e)
    then show ?thesis by (cases ys) auto
  next
    case (Inr y)
    show ?thesis
    proof (cases "mapE f xs")
      case (Inl e)
      with Inr Cons.IH show ?thesis by (cases ys) auto
    next
      case r: (Inr zs)
      with Inr Cons.IH [of zs] Cons.IH show ?thesis by (cases ys) auto
    qed
  qed
qed

lemma filterE_eq_Inr:
  "filterE p xs = Inr ys \<Longrightarrow> ys = filter (\<lambda>x. p x = Inr True) xs"
proof (induction xs arbitrary: ys)
  case Nil
  then show ?case by simp
next
  case (Cons x xs)
  from Cons.prems obtain b zs where b: "p x = Inr b" and zs: "filterE p xs = Inr zs"
    and ys: "ys = (if b then x # zs else zs)"
    by (auto simp: bindE_eq_Inr)
  from Cons.IH [OF zs] b ys show ?case by auto
qed

lemma respond_status: "status (respond r) = 200"
  by (cases r) (simp_all add: respond_def res_json_def)

lemma respond_Inl: "respond (Inl e) = \<lparr> status = 200, body = [] \<rparr>"
  by (simp add: respond_def res_json_def)

lemma respond_Inr: "respond (Inr out) = \<lparr> status = 200, body = out \<rparr>"
  by (simp add: respond_def res_json_def)

lemma getJson_fails_iff:
  "(\<exists>e. getJson env up = Inl e) \<longleftrightarrow>
     up = NetworkFailure \<or> up = TimedOut \<or>
     (\<exists>st t. up = Reply st t \<and> (\<not> res_ok st \<or> json_parse env t = None))"
  by (cases up) (auto simp: getJson_def split: option.splits)

lemma getText_parse_fails_iff:
  "(\<exists>e. bindE (getText up) (parseXml env) = Inl e) \<longleftrightarrow>
     up = NetworkFailure \<or> up = TimedOut \<or>
     (\<exists>st t. up = Reply st t \<and> (\<not> res_ok st \<or> xml_parse env t = None))"
  by (cases up) (auto simp: getText_def parseXml_def split: option.splits)

lemma str_includes_sublist: "str_includes t p = sublist p t"
  by (induction t) (simp_all add: sublist_Cons_right)

lemma str_includes_iff: "str_includes t p \<longleftrightarrow> (\<exists>pre suf. t = pre @ p @ suf)"
  by (simp add: str_includes_sublist sublist_def)

lemma lowerChar_idem: "lowerChar (lowerChar c) = lowerChar c"
proof (cases "65 \<le> (of_char c :: nat) \<and> (of_char c :: nat) \<le> 90")
  case True
  then have "(of_char (char_of (of_char c + 32 :: nat)) :: nat) = of_char c + 32"
    by simp
  with True show ?thesis by (simp add: lowerChar_def Let_def)
next
  case False
  then have "lowerChar c = c" by (auto simp add: lowerChar_def Let_def)
  then show ?thesis by simp
qed

lemma toLowerCase_idem: "toLowerCase (toLowerCase s) = toLowerCase s"
  by (simp add: toLowerCase_def lowerChar_idem)

lemma regex_alt_test_iff:
  "regex_alt_test ps t \<longleftrightarrow> (\<exists>k \<in> set ps. \<exists>pre suf. t = pre @ k @ suf)"
  by (simp add: regex_alt_test_def list_ex_iff str_includes_iff)

section \<open>The claims\<close>

subsection \<open>C3: the severity classifier\<close>

text \<open>
  Claim C3. The classifier is a function of its text alone. On \<^verbatim>\<open>undefined\<close> it
  returns 3, as on the empty string. On a string it returns 5 when the lower-cased text
  contains one of bomb, explosion, blast, airstrike; otherwise 4 when it contains one of
  terror, shooting, kidnap, abduction, riot, violent protest, unrest; otherwise 3. It
  never throws on a string, its result is one of 3, 4, 5, and a text classifies as its
  lower-case form does. The four examples of the specification evaluate as stated.
\<close>

theorem kwSeverity_classifier:
  "kwSeverity JUndefined = Inr 3
   \<and> kwSeverity (JStr s) =
       Inr (if \<exists>k \<in> {''bomb'', ''explosion'', ''blast'', ''airstrike''}.
                 \<exists>pre suf. toLowerCase s = pre @ k @ suf then 5
            else if \<exists>k \<in> {''terror'', ''shooting'', ''kidnap'', ''abduction'', ''riot'',
                            ''violent protest'', ''unrest''}.
                 \<exists>pre suf. toLowerCase s = pre @ k @ suf then 4
            else 3)
   \<and> kwSeverity (JStr s) \<in> {Inr 3, Inr 4, Inr 5}
   \<and> kwSeverity (JStr s) = kwSeverity (JStr (toLowerCase s))
   \<and> kwSeverity (JStr ''a bomb exploded'') = Inr 5
   \<and> kwSeverity (JStr ''violent protest erupts'') = Inr 4
   \<and> kwSeverity (JStr ''routine embassy update'') = Inr 3
   \<and> kwSeverity (JStr []) = Inr 3"
proof -
  have undef: "kwSeverity JUndefined = Inr 3"
    by code_simp
  have k5: "set kw5 = {''bomb'', ''explosion'', ''blast'', ''airstrike''}"
    by (simp add: kw5_def)
  have k4: "set kw4 = {''terror'', ''shooting'', ''kidnap'', ''abduction'', ''riot'',
                       ''violent protest'', ''unrest''}"
    by (simp add: kw4_def)
  have str: "kwSeverity (JStr s) = Inr (kwSeverityStr s)" for s
    by (simp add: kwSeverity_def)
  have sem: "kwSeverityStr s =
       (if \<exists>k \<in> {''bomb'', ''explosion'', ''blast'', ''airstrike''}.
                 \<exists>pre suf. toLowerCase s = pre @ k @ suf then 5
            else if \<exists>k \<in> {''terror'', ''shooting'', ''kidnap'', ''abduction'', ''riot'',
                            ''violent protest'', ''unrest''}.
                 \<exists>pre suf. toLowerCase s = pre @ k @ suf then 4
            else 3)"
    unfolding kwSeverityStr_def Let_def regex_alt_test_iff k5 k4 ..
  have range: "kwSeverityStr s \<in> {3, 4, 5}"
    by (simp add: kwSeverityStr_def Let_def)
  have ci: "kwSeverityStr s = kwSeverityStr (toLowerCase s)"
    by (simp add: kwSeverityStr_def toLowerCase_idem)
  have e1: "kwSeverity (JStr ''a bomb exploded'') = Inr 5" by code_simp
  have e2: "kwSeverity (JStr ''violent protest erupts'') = Inr 4" by code_simp
  have e3: "kwSeverity (JStr ''routine embassy update'') = Inr 3" by code_simp
  have e4: "kwSeverity (JStr []) = Inr 3" by code_simp
  from range have range': "kwSeverity (JStr s) \<in> {Inr 3, Inr 4, Inr 5}"
    by (auto simp: str)
  show ?thesis
    using undef sem range' ci e1 e2 e3 e4 by (simp only: str)
qed

text \<open>
  A mixed-case text with a keyword of both lists: the first list wins, and the
  lower-case form classifies the same.
\<close>

theorem kwSeverity_classifier_witness:
  "kwSeverity (JStr ''Car BOMB near a RIOT'') = Inr 5
   \<and> kwSeverity (JStr ''Car BOMB near a RIOT'') = kwSeverity (JStr ''car bomb near a riot'')"
proof -
  note th = kwSeverity_classifier [of "''Car BOMB near a RIOT''"]
  have lc: "toLowerCase ''Car BOMB near a RIOT'' = ''car bomb near a riot''"
    by code_simp
  have "''car bomb near a riot'' = ''car '' @ ''bomb'' @ '' near a riot''" by simp
  then have ex: "\<exists>k \<in> {''bomb'', ''explosion'', ''blast'', ''airstrike''}.
                 \<exists>pre suf. toLowerCase ''Car BOMB near a RIOT'' = pre @ k @ suf"
    unfolding lc by blast
  have A: "kwSeverity (JStr ''Car BOMB near a RIOT'') = Inr 5"
    using th [THEN conjunct2, THEN conjunct1] ex by (simp only: if_True)
  have B: "kwSeverity (JStr ''Car BOMB near a RIOT'') = kwSeverity (JStr ''car bomb near a riot'')"
    using th [THEN conjunct2, THEN conjunct2, THEN conjunct2, THEN conjunct1] by (simp only: lc)
  from A B show ?thesis by (rule conjI)
qed

subsection \<open>C1: a failure degrades to the empty array\<close>

text \<open>
  Claim C1. For each of the four handlers: when the connection fails, the timer aborts
  the call, the reply has a status outside 200..299, the body is rejected by the JSON or
  XML parser, or the adaptation of the parsed document throws, the response is the empty
  array with status 200. The handlers are total, so no error leaves them, and the status
  of every response is 200.
\<close>

theorem handlers_fail_safe:
  "((net govuk_request = NetworkFailure \<or> net govuk_request = TimedOut
      \<or> (\<exists>st t. net govuk_request = Reply st t \<and> (\<not> res_ok st \<or> json_parse env t = None))
      \<or> (\<exists>data e. getJson env (net govuk_request) = Inr data \<and> govuk_adapt env data = Inl e))
     \<longrightarrow> govuk env net = \<lparr> status = 200, body = [] \<rparr>)
   \<and> ((net usTravel_request = NetworkFailure \<or> net usTravel_request = TimedOut
      \<or> (\<exists>st t. net usTravel_request = Reply st t \<and> (\<not> res_ok st \<or> xml_parse env t = None))
      \<or> (\<exists>t j e. getText (net usTravel_request) = Inr t \<and> parseXml env t = Inr j
                  \<and> usTravel_adapt env j = Inl e))
     \<longrightarrow> usTravel env net = \<lparr> status = 200, body = [] \<rparr>)
   \<and> ((net (reliefweb_request qry) = NetworkFailure \<or> net (reliefweb_request qry) = TimedOut
      \<or> (\<exists>st t. net (reliefweb_request qry) = Reply st t
                  \<and> (\<not> res_ok st \<or> json_parse env t = None))
      \<or> (\<exists>data e. getJson env (net (reliefweb_request qry)) = Inr data
                  \<and> reliefweb_adapt data = Inl e))
     \<longrightarrow> reliefweb env net qry = \<lparr> status = 200, body = [] \<rparr>)
   \<and> ((net (gdelt_request qry) = NetworkFailure \<or> net (gdelt_request qry) = TimedOut
      \<or> (\<exists>st t. net (gdelt_request qry) = Reply st t
                  \<and> (\<not> res_ok st \<or> json_parse env t = None))
      \<or> (\<exists>data e. getJson env (net (gdelt_request qry)) = Inr data
                  \<and> gdelt_adapt env data = Inl e))
     \<longrightarrow> gdelt env net qry = \<lparr> status = 200, body = [] \<rparr>)
   \<and> status (govuk env net) = 200 \<and> status (usTravel env net) = 200
   \<and> status (reliefweb env net qry) = 200 \<and> status (gdelt env net qry) = 200"
proof -
  have json: "respond (bindE (getJson env up) f) = \<lparr> status = 200, body = [] \<rparr>"
    if "up = NetworkFailure \<or> up = TimedOut
        \<or> (\<exists>st t. up = Reply st t \<and> (\<not> res_ok st \<or> json_parse env t = None))
        \<or> (\<exists>data e. getJson env up = Inr data \<and> f data = Inl e)"
    for up and f :: "jsval \<Rightarrow> error + item list"
  proof (cases "getJson env up")
    case (Inl e)
    then show ?thesis by (simp add: respond_Inl)
  next
    case (Inr data)
    with getJson_fails_iff [of env up] that obtain e where "f data = Inl e"
      by auto
    with Inr show ?thesis by (simp add: respond_Inl)
  qed
  have xml: "respond (bindE (getText up) (\<lambda>t. bindE (parseXml env t) f))
               = \<lparr> status = 200, body = [] \<rparr>"
    if "up = NetworkFailure \<or> up = TimedOut
        \<or> (\<exists>st t. up = Reply st t \<and> (\<not> res_ok st \<or> xml_parse env t = None))
        \<or> (\<exists>t j e. getText up = Inr t \<and> parseXml env t = Inr j \<and> f j = Inl e)"
    for up and f :: "jsval \<Rightarrow> error + item list"
  proof (cases "bindE (getText up) (parseXml env)")
    case (Inl e)
    then show ?thesis
      by (cases "getText up") (simp_all add: respond_Inl)
  next
    case (Inr j)
    then obtain t where t: "getText up = Inr t" "parseXml env t = Inr j"
      by (auto simp: bindE_eq_Inr)
    with getText_parse_fails_iff [of up env] Inr that obtain e where "f j = Inl e"
      by auto
    with t show ?thesis by (simp add: respond_Inl)
  qed
  show ?thesis
    unfolding govuk_def usTravel_def reliefweb_def gdelt_def
    using json [of "net govuk_request" "govuk_adapt env"]
      xml [of "net usTravel_request" "usTravel_adapt env"]
      json [of "net (reliefweb_request qry)" reliefweb_adapt]
      json [of "net (gdelt_request qry)" "gdelt_adapt env"]
    by (simp only: respond_status) blast
qed

text \<open>
  A status 500, a text the XML parser rejects, a timeout, a failed connection, and a
  parsed document on which the adaptation throws.
\<close>

theorem handlers_fail_safe_witness:
  "govuk sample_env (\<lambda>r. Reply 500 ''Internal Server Error'') = \<lparr> status = 200, body = [] \<rparr>
   \<and> usTravel sample_env (\<lambda>r. Reply 200 ''<rss><channel>'') = \<lparr> status = 200, body = [] \<rparr>
   \<and> reliefweb sample_env (\<lambda>r. TimedOut) Map.empty = \<lparr> status = 200, body = [] \<rparr>
   \<and> gdelt sample_env (\<lambda>r. NetworkFailure) Map.empty = \<lparr> status = 200, body = [] \<rparr>
   \<and> govuk sample_env (\<lambda>r. Reply 200 ''null'') = \<lparr> status = 200, body = [] \<rparr>"
proof -
  have a: "\<not> res_ok 500" by (simp add: res_ok_def)
  have b: "xml_parse sample_env ''<rss><channel>'' = None"
    by (simp add: sample_env_def sample_feed_text_def)
  have c: "getJson sample_env (Reply 200 ''null'') = Inr JNull"
    by (simp add: getJson_def res_ok_def sample_env_def)
  have d: "govuk_adapt sample_env JNull = Inl TypeError"
    by (simp add: govuk_adapt_def Let_def optprop_def nullish_def or_js_def orE_def readProp_def)
  show ?thesis
    using handlers_fail_safe [of "\<lambda>r. Reply 500 ''Internal Server Error''" sample_env Map.empty]
      handlers_fail_safe [of "\<lambda>r. Reply 200 ''<rss><channel>''" sample_env Map.empty]
      handlers_fail_safe [of "\<lambda>r. TimedOut" sample_env Map.empty]
      handlers_fail_safe [of "\<lambda>r. NetworkFailure" sample_env Map.empty]
      handlers_fail_safe [of "\<lambda>r. Reply 200 ''null''" sample_env Map.empty]
      a b c d
    by simp
qed

subsection \<open>C4: the window parameters\<close>

text \<open>
  Claim C4, evaluated on its inputs. \<^verbatim>\<open>days\<close> of \<^verbatim>\<open>"0"\<close> is 1, of
  \<^verbatim>\<open>"9999"\<close> is 60, absent is 21; \<^verbatim>\<open>hours\<close> of \<^verbatim>\<open>"500"\<close> is 168, absent is
  24. A text with no leading digits is not replaced by the default: \<^verbatim>\<open>parseInt\<close> gives
  \<^verbatim>\<open>NaN\<close>, which passes through \<^verbatim>\<open>Math.min\<close> and \<^verbatim>\<open>Math.max\<close>, and the
  request carries \<^verbatim>\<open>now-NaNd\<close> and \<^verbatim>\<open>TIMESPAN=NaNHRS\<close>.
\<close>

theorem window_parsing_non_numeric:
  \<open>days_of (Map.empty(''days'' \<mapsto> ''0'')) = Finite 1
   \<and> days_of (Map.empty(''days'' \<mapsto> ''9999'')) = Finite 60
   \<and> days_of Map.empty = Finite 21
   \<and> hours_of (Map.empty(''hours'' \<mapsto> ''500'')) = Finite 168
   \<and> hours_of Map.empty = Finite 24
   \<and> days_of (Map.empty(''days'' \<mapsto> ''abc'')) = NaN
   \<and> hours_of (Map.empty(''hours'' \<mapsto> ''abc'')) = NaN
   \<and> str_includes (reliefweb_body (days_of (Map.empty(''days'' \<mapsto> ''abc''))))
         ''{"from":"now-NaNd"}''
   \<and> gdelt_request (Map.empty(''hours'' \<mapsto> ''abc'')) =
       GET (''https://api.gdeltproject.org/api/v2/doc/doc?query='' @
            encodeURIComponent gdelt_default_q @
            ''&mode=ArtList&maxrecords=50&format=json&TIMESPAN=NaNHRS'')\<close>
proof -
  have d: "days_of (Map.empty(''days'' \<mapsto> ''abc'')) = NaN"
    by (simp add: days_of_def param_or_def parseInt10_def isSpace_def isDigit_def)
  have h: "hours_of (Map.empty(''hours'' \<mapsto> ''abc'')) = NaN"
    by (simp add: hours_of_def param_or_def parseInt10_def isSpace_def isDigit_def)
  have b: \<open>str_includes (reliefweb_body NaN) ''{"from":"now-NaNd"}''\<close>
    by code_simp
  have g: "gdelt_request (Map.empty(''hours'' \<mapsto> ''abc'')) =
       GET (''https://api.gdeltproject.org/api/v2/doc/doc?query='' @
            encodeURIComponent gdelt_default_q @
            ''&mode=ArtList&maxrecords=50&format=json&TIMESPAN=NaNHRS'')"
    by (simp add: gdelt_request_def h param_or_def)
  have ok: "days_of (Map.empty(''days'' \<mapsto> ''0'')) = Finite 1
     \<and> days_of (Map.empty(''days'' \<mapsto> ''9999'')) = Finite 60
     \<and> days_of Map.empty = Finite 21
     \<and> hours_of (Map.empty(''hours'' \<mapsto> ''500'')) = Finite 168
     \<and> hours_of Map.empty = Finite 24"
    by (simp add: days_of_def hours_of_def param_or_def parseInt10_def isSpace_def isDigit_def
        digitsVal_def)
  from ok d h b g show ?thesis by (simp only: d)
qed

text \<open>The clamp on every text that starts with a number, and the escape of the others.\<close>

lemma window_clamp:
  "parseInt10 (param_or qry ''days'' ''21'') = Finite n
     \<Longrightarrow> days_of qry = Finite (max 1 (min 60 n))"
  "parseInt10 (param_or qry ''hours'' ''24'') = Finite n
     \<Longrightarrow> hours_of qry = Finite (max 1 (min 168 n))"
  "parseInt10 (param_or qry ''days'' ''21'') = NaN \<Longrightarrow> days_of qry = NaN"
  "parseInt10 (param_or qry ''hours'' ''24'') = NaN \<Longrightarrow> hours_of qry = NaN"
  by (simp_all add: days_of_def hours_of_def)

subsection \<open>Facts about the adapters\<close>

lemma truthy_not_nullish: "truthy v \<Longrightarrow> \<not> nullish v"
  by (cases v) (simp_all add: nullish_def)

lemma or_obj_not_nullish [simp]: "\<not> nullish (or_js a (JObj kvs))"
  by (cases a) (simp_all add: or_js_def nullish_def)

lemma or_js_truthy: "truthy a \<Longrightarrow> or_js a b = a"
  by (simp add: or_js_def)

lemma readProp_eq_Inr: "readProp v k = Inr w \<longleftrightarrow> \<not> nullish v \<and> w = get v k"
  by (auto simp: readProp_def)

lemma readProp_ok: "\<not> nullish v \<Longrightarrow> readProp v k = Inr (get v k)"
  by (simp add: readProp_def)

lemma orE_eq_Inr:
  "orE a b = Inr v \<longleftrightarrow> (truthy a \<and> v = a) \<or> (\<not> truthy a \<and> b = Inr v)"
  by (auto simp: orE_def)

lemma govuk_adapt_null: "govuk_adapt env JNull = Inl TypeError"
  by (simp add: govuk_adapt_def Let_def optprop_def nullish_def or_js_def orE_def readProp_def)

lemma govuk_adapt_ok:
  assumes "\<not> nullish data" and "\<bar>now env\<bar> \<le> 8640000000000000"
  shows "govuk_adapt env data =
     Inr [\<lparr> item_id = JStr ''govuk:za'',
            item_ts = or_js (get (or_js (get (or_js (get data ''details'') (JObj [])) ''latest_update'')
                                   (JObj [])) ''published'')
                       (or_js (get data ''public_updated_at'') (JStr (iso_string env (now env)))),
            item_source = JStr ''gov.uk'',
            item_title = JStr govuk_title,
            item_summary = or_js (get (or_js (get data ''details'') (JObj [])) ''change_description'')
                             (or_js (get (or_js (get data ''details'') (JObj [])) ''summary'')
                                (JStr ''Travel advice'')),
            item_severity = JNum 3,
            item_links = JArr [JStr ''https://www.gov.uk/foreign-travel-advice/south-africa''],
            item_lat = JUndefined, item_lng = JUndefined \<rparr>]"
proof -
  have d: "optprop data ''details'' = get data ''details''"
    using assms(1) by (simp add: optprop_def)
  have clock: "toISOString env (timeClip (now env)) = Inr (iso_string env (now env))"
    using assms(2) by (simp add: toISOString_def timeClip_def)
  have r: "readProp (or_js a (JObj [])) k = Inr (get (or_js a (JObj [])) k)" for a k
    by (simp add: readProp_ok)
  have o: "orE a (Inr b) = Inr (or_js a b)" for a b
    by (simp add: orE_def or_js_def)
  have o2: "orE a (bindE (Inr v) (\<lambda>x. Inr (g x))) = Inr (or_js a (g v))" for a v g
    by (simp add: orE_def or_js_def)
  show ?thesis
    unfolding govuk_adapt_def Let_def d
    by (simp add: r readProp_ok [OF assms(1)] clock o o2 item_def literal_def coalesce_def
        nullish_def or_js_truthy)
qed

lemma mapE_set:
  assumes "mapE f xs = Inr ys" and "y \<in> set ys"
  shows "\<exists>x \<in> set xs. f x = Inr y"
proof -
  from assms(1) have "map f xs = map Inr ys" by (simp add: mapE_eq_Inr)
  then have "set (map f xs) = set (map Inr ys)" by simp
  with assms(2) show ?thesis by (auto simp: image_iff) (metis imageE imageI)
qed

lemma usItem_shape:
  assumes "usItem env x = Inr it"
  shows "(\<exists>s. item_id it = JStr s) \<and> item_source it = JStr ''travel.state.gov''
    \<and> (\<exists>s. item_ts it = JStr s) \<and> truthy (item_title it)
    \<and> (\<exists>s. item_summary it = JStr s \<and> length s \<le> 280)
    \<and> item_severity it = JNum 3
    \<and> item_links it = JArr [or_js (optidx0 (get x ''link'')) (JStr ''https://travel.state.gov'')]
    \<and> item_lat it = JUndefined \<and> item_lng it = JUndefined"
  using assms
  by (auto simp: usItem_def bindE_eq_Inr readProp_eq_Inr item_def literal_def coalesce_def
      nullish_def or_js_def)

lemma rwItem_shape:
  assumes "rwItem d = Inr it"
  shows "(\<exists>s. item_id it = JStr s) \<and> item_source it = JStr ''reliefweb''
    \<and> item_ts it = get (or_js (get d ''fields'') (JObj [])) ''date.created''
    \<and> item_title it = get (or_js (get d ''fields'') (JObj [])) ''title''
    \<and> (\<exists>themes. rw_themes (or_js (get d ''fields'') (JObj [])) = Inr themes
          \<and> item_summary it = JStr themes
          \<and> item_severity it = JNum (if regex_alt_test_i rw_keywords themes then 4 else 3))
    \<and> item_links it = JArr [get (or_js (get d ''fields'') (JObj [])) ''url'']
    \<and> item_lat it = JUndefined \<and> item_lng it = JUndefined"
  using assms
  by (auto simp: rwItem_def Let_def bindE_eq_Inr readProp_eq_Inr item_def literal_def
      coalesce_def nullish_def or_js_def)

lemma kwSeverity_range: "kwSeverity v = Inr n \<Longrightarrow> n \<in> {3, 4, 5}"
  by (auto simp: kwSeverity_def kwSeverityStr_def Let_def bindE_eq_Inr split: if_splits)

lemma gdeltItem_shape:
  assumes "gdeltItem env a = Inr it"
  shows "(\<exists>s. item_id it = JStr s) \<and> item_source it = JStr ''gdelt''
    \<and> (\<exists>s. item_ts it = JStr s)
    \<and> item_title it = get a ''title''
    \<and> item_severity it \<in> {JNum 3, JNum 4, JNum 5}
    \<and> item_links it = JArr [get a ''url'']
    \<and> item_lat it = JUndefined \<and> item_lng it = JUndefined"
  using assms
  by (auto simp: gdeltItem_def bindE_eq_Inr readProp_eq_Inr item_def literal_def
      coalesce_def nullish_def or_js_def dest!: kwSeverity_range)

lemma body_respond: "it \<in> set (body (respond r)) \<longleftrightarrow> (\<exists>out. r = Inr out \<and> it \<in> set out)"
  by (cases r) (simp_all add: respond_def res_json_def)

lemma change_present:
  "orE pub (bindE m (\<lambda>pua. orE pua (bindE n (\<lambda>s. Inr (JStr s))))) = Inr v \<Longrightarrow> v \<noteq> JUndefined"
  by (auto simp: orE_eq_Inr bindE_eq_Inr)

lemma summ_present:
  "orE cd (bindE m (\<lambda>sm. Inr (or_js sm (JStr t)))) = Inr v \<Longrightarrow> v \<noteq> JUndefined"
  by (auto simp: orE_eq_Inr bindE_eq_Inr or_js_def split: if_splits)

lemma govuk_adapt_shape:
  assumes "govuk_adapt env data = Inr out"
  shows "\<exists>it. out = [it] \<and> item_id it = JStr ''govuk:za'' \<and> item_source it = JStr ''gov.uk''
     \<and> item_ts it \<noteq> JUndefined \<and> item_title it = JStr govuk_title
     \<and> item_summary it \<noteq> JUndefined \<and> item_severity it = JNum 3
     \<and> item_links it = JArr [JStr ''https://www.gov.uk/foreign-travel-advice/south-africa'']
     \<and> item_lat it = JUndefined \<and> item_lng it = JUndefined"
proof -
  from assms obtain change summ where
    c: "change \<noteq> JUndefined" and s: "summ \<noteq> JUndefined" and
    out: "out = [item (literal (JStr ''govuk:za'') change (JStr ''gov.uk'') (JStr govuk_title) summ
                  (JNum 3)
                  (JArr [JStr ''https://www.gov.uk/foreign-travel-advice/south-africa'']))]"
    unfolding govuk_adapt_def Let_def
    by (auto simp: bindE_eq_Inr dest: change_present summ_present)
  show ?thesis
    unfolding out using c s
    by (simp add: item_def literal_def coalesce_def nullish_def or_js_truthy)
qed

lemma govuk_body:
  assumes "it \<in> set (body (govuk env net))"
  shows "\<exists>data. govuk_adapt env data = Inr [it]"
proof -
  from assms obtain out data where "govuk_adapt env data = Inr out" "it \<in> set out"
    by (auto simp: govuk_def body_respond bindE_eq_Inr)
  with govuk_adapt_shape [of env data out] show ?thesis by auto
qed

lemma usTravel_body:
  assumes "it \<in> set (body (usTravel env net))"
  shows "\<exists>x. usItem env x = Inr it"
proof -
  from assms obtain items where m: "\<exists>kept. mapE (usItem env) kept = Inr items" and "it \<in> set (take 5 items)"
    by (auto simp: usTravel_def usTravel_adapt_def body_respond bindE_eq_Inr)
  then have "it \<in> set items" by (auto dest: in_set_takeD)
  with m mapE_set show ?thesis by fastforce
qed

lemma reliefweb_body_items:
  assumes "it \<in> set (body (reliefweb env net qry))"
  shows "\<exists>d. rwItem d = Inr it"
  using assms
  by (auto simp: reliefweb_def reliefweb_adapt_def body_respond bindE_eq_Inr dest: mapE_set)

lemma gdelt_body:
  assumes "it \<in> set (body (gdelt env net qry))"
  shows "\<exists>a. gdeltItem env a = Inr it"
  using assms
  by (auto simp: gdelt_def gdelt_adapt_def body_respond bindE_eq_Inr dest: mapE_set)

lemma json_keys_iff:
  "''id'' \<in> set (json_keys it) \<longleftrightarrow> item_id it \<noteq> JUndefined"
  "''ts'' \<in> set (json_keys it) \<longleftrightarrow> item_ts it \<noteq> JUndefined"
  "''source'' \<in> set (json_keys it) \<longleftrightarrow> item_source it \<noteq> JUndefined"
  "''title'' \<in> set (json_keys it) \<longleftrightarrow> item_title it \<noteq> JUndefined"
  "''summary'' \<in> set (json_keys it) \<longleftrightarrow> item_summary it \<noteq> JUndefined"
  "''severity'' \<in> set (json_keys it) \<longleftrightarrow> item_severity it \<noteq> JUndefined"
  "''links'' \<in> set (json_keys it) \<longleftrightarrow> item_links it \<noteq> JUndefined"
  by (auto simp: json_keys_def)

subsection \<open>C7: the travel-advice endpoint\<close>

text \<open>
  Claim C7 on the document \<^verbatim>\<open>null\<close>, which is a well-formed JSON text. With
  \<^verbatim>\<open>data = null\<close> the constant \<^verbatim>\<open>d\<close> is \<^verbatim>\<open>{}\<close> by the optional chaining of
  \<^verbatim>\<open>data?.details\<close>, so \<^verbatim>\<open>(d.latest_update || {}).published\<close> is undefined and
  \<^verbatim>\<open>data.public_updated_at\<close> is evaluated on \<^verbatim>\<open>null\<close>: a TypeError, caught, and
  the response is the empty array instead of one item.
\<close>

theorem govuk_null_document:
  "net govuk_request = Reply st t \<and> res_ok st \<and> json_parse env t = Some JNull
     \<longrightarrow> govuk env net = \<lparr> status = 200, body = [] \<rparr>"
  by (simp add: govuk_def getJson_def govuk_adapt_null respond_Inl)

text \<open>The sample platform parses the text \<^verbatim>\<open>null\<close>.\<close>

theorem govuk_null_document_witness:
  "govuk sample_env (\<lambda>r. Reply 200 ''null'') = \<lparr> status = 200, body = [] \<rparr>"
proof -
  have "res_ok 200" by (simp add: res_ok_def)
  moreover have "json_parse sample_env ''null'' = Some JNull"
    by (simp add: sample_env_def)
  ultimately show ?thesis
    using govuk_null_document [of "\<lambda>r. Reply 200 ''null''" 200 "''null''" sample_env]
    by simp
qed

text \<open>
  On every other parsed document, with a clock in the range of valid dates, the endpoint
  emits exactly one item: the fixed id, severity 3, the summary from
  \<^verbatim>\<open>details.change_description\<close>, else \<^verbatim>\<open>details.summary\<close>, else the placeholder,
  and ts from \<^verbatim>\<open>details.latest_update.published\<close>, else \<^verbatim>\<open>public_updated_at\<close>,
  else the current time.
\<close>

lemma govuk_one_item:
  assumes "net govuk_request = Reply st t" and "res_ok st" and "json_parse env t = Some data"
    and "data \<noteq> JNull" and "data \<noteq> JUndefined" and "\<bar>now env\<bar> \<le> 8640000000000000"
  shows "body (govuk env net) =
     [\<lparr> item_id = JStr ''govuk:za'',
        item_ts = or_js (get (or_js (get (or_js (get data ''details'') (JObj [])) ''latest_update'')
                               (JObj [])) ''published'')
                   (or_js (get data ''public_updated_at'') (JStr (iso_string env (now env)))),
        item_source = JStr ''gov.uk'',
        item_title = JStr govuk_title,
        item_summary = or_js (get (or_js (get data ''details'') (JObj [])) ''change_description'')
                         (or_js (get (or_js (get data ''details'') (JObj [])) ''summary'')
                            (JStr ''Travel advice'')),
        item_severity = JNum 3,
        item_links = JArr [JStr ''https://www.gov.uk/foreign-travel-advice/south-africa''],
        item_lat = JUndefined, item_lng = JUndefined \<rparr>]"
proof -
  from assms(4,5) have nn: "\<not> nullish data" by (simp add: nullish_def)
  show ?thesis
    using assms(1-3)
    by (simp add: govuk_def getJson_def govuk_adapt_ok [OF nn assms(6)] respond_Inr)
qed

lemma asArray_eq_Inr: "asArray v = Inr xs \<longleftrightarrow> v = JArr xs"
  by (cases v) auto

lemma asString_eq_Inr: "asString v = Inr s \<longleftrightarrow> v = JStr s"
  by (cases v) auto

lemma mentionsSA_iff:
  "mentionsSA x = Inr b \<longleftrightarrow>
     (\<exists>t d. \<not> nullish x
        \<and> or_js (optidx0 (get x ''title'')) (JStr []) = JStr t
        \<and> or_js (optidx0 (get x ''description'')) (JStr []) = JStr d
        \<and> b = ((\<exists>pre suf. toLowerCase t = pre @ ''south africa'' @ suf)
                \<or> (\<exists>pre suf. toLowerCase d = pre @ ''south africa'' @ suf)))"
  unfolding mentionsSA_def bindE_eq_Inr readProp_eq_Inr asString_eq_Inr str_includes_iff
  by auto

lemma handler_success:
  "getJson env (net govuk_request) = Inr data \<Longrightarrow> govuk_adapt env data = Inr out
     \<Longrightarrow> govuk env net = \<lparr> status = 200, body = out \<rparr>"
  "getText (net usTravel_request) = Inr t \<Longrightarrow> parseXml env t = Inr j
     \<Longrightarrow> usTravel_adapt env j = Inr out
     \<Longrightarrow> usTravel env net = \<lparr> status = 200, body = out \<rparr>"
  "getJson env (net (reliefweb_request qry)) = Inr data \<Longrightarrow> reliefweb_adapt data = Inr out
     \<Longrightarrow> reliefweb env net qry = \<lparr> status = 200, body = out \<rparr>"
  "getJson env (net (gdelt_request qry)) = Inr data \<Longrightarrow> gdelt_adapt env data = Inr out
     \<Longrightarrow> gdelt env net qry = \<lparr> status = 200, body = out \<rparr>"
  by (simp_all add: govuk_def usTravel_def reliefweb_def gdelt_def respond_Inr)

subsection \<open>C6: the relevance filter and the cap of the RSS adapter\<close>

text \<open>
  Claim C6 on a feed of eight items of which three mention the country, one of the three
  with a date that is not a date. \<^verbatim>\<open>filter\<close> keeps the three, but \<^verbatim>\<open>map\<close> builds
  every kept item before \<^verbatim>\<open>slice(0, 5)\<close>, and \<^verbatim>\<open>toISOString\<close> throws on the
  date: the adapter throws and the response has no item instead of three.
\<close>

theorem three_matches_zero_items:
  "(case rss_items sample_feed_eight of JArr xs \<Rightarrow>
       (length xs, length (filter (\<lambda>x. mentionsSA x = Inr True) xs)) | _ \<Rightarrow> (0, 0)) = (8, 3)
   \<and> usTravel_adapt sample_env_feeds sample_feed_eight = Inl RangeError
   \<and> usTravel sample_env_feeds (\<lambda>r. Reply 200 sample_feed_eight_text)
       = \<lparr> status = 200, body = [] \<rparr>"
proof -
  have a: "(case rss_items sample_feed_eight of JArr xs \<Rightarrow>
       (length xs, length (filter (\<lambda>x. mentionsSA x = Inr True) xs)) | _ \<Rightarrow> (0, 0)) = (8, 3)"
    by code_simp
  have b: "usTravel_adapt sample_env_feeds sample_feed_eight = Inl RangeError"
    by code_simp
  have c: "getText (Reply 200 sample_feed_eight_text) = Inr sample_feed_eight_text"
    by (simp add: getText_def res_ok_def)
  have d: "parseXml sample_env_feeds sample_feed_eight_text = Inr sample_feed_eight"
    by (simp add: parseXml_def sample_env_feeds_def)
  from a b c d show ?thesis
    by (simp add: usTravel_def respond_Inl)
qed

text \<open>
  The filter and the cap on a feed on which no channel item throws. When the adapter
  returns a list for a parsed feed, the list is made, in upstream order, from the first
  five of the channel items that pass the filter, so its length is the smaller of 5 and
  the number of matches. An item passes exactly when the lower-cased first title or the
  lower-cased first description contains \<^verbatim>\<open>south africa\<close>, a missing field
  counting as the empty string; an item with neither field is dropped.
\<close>

theorem rss_filter_and_cap:
  "(usTravel_adapt env j = Inr out \<longrightarrow>
      (\<exists>xs. rss_items j = JArr xs
         \<and> map Inr out = map (usItem env) (take 5 (filter (\<lambda>x. mentionsSA x = Inr True) xs))
         \<and> length out = min 5 (length (filter (\<lambda>x. mentionsSA x = Inr True) xs))))
   \<and> (mentionsSA x = Inr True \<longleftrightarrow>
        (\<exists>t d. \<not> nullish x
           \<and> or_js (optidx0 (get x ''title'')) (JStr []) = JStr t
           \<and> or_js (optidx0 (get x ''description'')) (JStr []) = JStr d
           \<and> ((\<exists>pre suf. toLowerCase t = pre @ ''south africa'' @ suf)
                \<or> (\<exists>pre suf. toLowerCase d = pre @ ''south africa'' @ suf))))
   \<and> (\<not> nullish x \<and> get x ''title'' = JUndefined \<and> get x ''description'' = JUndefined
        \<longrightarrow> mentionsSA x = Inr False)"
proof -
  have cap: "\<exists>xs. rss_items j = JArr xs
         \<and> map Inr out = map (usItem env) (take 5 (filter (\<lambda>x. mentionsSA x = Inr True) xs))
         \<and> length out = min 5 (length (filter (\<lambda>x. mentionsSA x = Inr True) xs))"
    if "usTravel_adapt env j = Inr out"
  proof -
    from that obtain xs kept items where xs: "rss_items j = JArr xs"
      and kept: "filterE mentionsSA xs = Inr kept"
      and items: "mapE (usItem env) kept = Inr items"
      and out: "out = take 5 items"
      by (auto simp: usTravel_adapt_def bindE_eq_Inr asArray_eq_Inr)
    from kept have k: "kept = filter (\<lambda>x. mentionsSA x = Inr True) xs"
      by (rule filterE_eq_Inr)
    from items have m: "map (usItem env) kept = map Inr items"
      by (simp add: mapE_eq_Inr)
    then have "length kept = length items"
      by (metis length_map)
    with out have len: "length out = min 5 (length kept)" by simp
    have "map Inr out = take 5 (map Inr items)"
      by (simp add: out take_map)
    also have "\<dots> = take 5 (map (usItem env) kept)"
      by (simp only: m)
    also have "\<dots> = map (usItem env) (take 5 kept)"
      by (simp add: take_map)
    finally have "map Inr out = map (usItem env) (take 5 kept)" .
    with xs k len show ?thesis by blast
  qed
  have sem: "mentionsSA x = Inr True \<longleftrightarrow>
        (\<exists>t d. \<not> nullish x
           \<and> or_js (optidx0 (get x ''title'')) (JStr []) = JStr t
           \<and> or_js (optidx0 (get x ''description'')) (JStr []) = JStr d
           \<and> ((\<exists>pre suf. toLowerCase t = pre @ ''south africa'' @ suf)
                \<or> (\<exists>pre suf. toLowerCase d = pre @ ''south africa'' @ suf)))"
    by (simp add: mentionsSA_iff)
  have none: "mentionsSA x = Inr False"
    if "\<not> nullish x" "get x ''title'' = JUndefined" "get x ''description'' = JUndefined"
    using that by (simp add: mentionsSA_iff or_js_def toLowerCase_def)
  from cap sem none show ?thesis by blast
qed

text \<open>
  A feed of eight items of which three mention the country, one in upper case in the
  description and one with a title only, gives three items; six matches give five.
\<close>

theorem rss_filter_and_cap_witness:
  "(\<exists>out xs. usTravel_adapt sample_env sample_feed = Inr out \<and> rss_items sample_feed = JArr xs
       \<and> length xs = 8 \<and> length out = 3)
   \<and> (\<exists>out xs. usTravel_adapt sample_env
                  (feed_of (replicate 6 (rss_entry ''South Africa'' ''Advisory'' sample_date)))
                  = Inr out
       \<and> rss_items (feed_of (replicate 6 (rss_entry ''South Africa'' ''Advisory'' sample_date)))
           = JArr xs
       \<and> length (filter (\<lambda>x. mentionsSA x = Inr True) xs) = 6 \<and> length out = 5)"
proof -
  let ?six = "feed_of (replicate 6 (rss_entry ''South Africa'' ''Advisory'' sample_date))"
  have a: "\<not> isl (usTravel_adapt sample_env sample_feed)" by code_simp
  have b: "\<not> isl (usTravel_adapt sample_env ?six)" by code_simp
  have xs1: "length (case rss_items sample_feed of JArr xs \<Rightarrow> xs | _ \<Rightarrow> []) = 8"
    by code_simp
  have n1: "length (filter (\<lambda>x. mentionsSA x = Inr True)
                 (case rss_items sample_feed of JArr xs \<Rightarrow> xs | _ \<Rightarrow> [])) = 3"
    by code_simp
  have n2: "length (filter (\<lambda>x. mentionsSA x = Inr True)
                 (case rss_items ?six of JArr xs \<Rightarrow> xs | _ \<Rightarrow> [])) = 6"
    by code_simp
  from a obtain out1 where o1: "usTravel_adapt sample_env sample_feed = Inr out1"
    by (cases "usTravel_adapt sample_env sample_feed") auto
  from b obtain out2 where o2: "usTravel_adapt sample_env ?six = Inr out2"
    by (cases "usTravel_adapt sample_env ?six") auto
  from rss_filter_and_cap [of sample_env sample_feed out1] o1
  obtain ys where ys: "rss_items sample_feed = JArr ys"
      "length out1 = min 5 (length (filter (\<lambda>x. mentionsSA x = Inr True) ys))"
    by blast
  from rss_filter_and_cap [of sample_env ?six out2] o2
  obtain zs where zs: "rss_items ?six = JArr zs"
      "length out2 = min 5 (length (filter (\<lambda>x. mentionsSA x = Inr True) zs))"
    by blast
  from ys xs1 n1 have "length ys = 8 \<and> length out1 = 3" by simp
  moreover from zs n2 have "length (filter (\<lambda>x. mentionsSA x = Inr True) zs) = 6 \<and> length out2 = 5"
    by simp
  ultimately show ?thesis using o1 o2 ys(1) zs(1) by blast
qed

lemma regex_alt_test_i_iff:
  "regex_alt_test_i ps t \<longleftrightarrow>
     (\<exists>k \<in> set ps. \<exists>pre suf. map upperChar t = pre @ map upperChar k @ suf)"
  by (simp add: regex_alt_test_i_def list_ex_iff str_includes_iff)

lemma joinStr_strings:
  "joinStr sep (map JStr ns) =
     Inr (case ns of [] \<Rightarrow> [] | n # r \<Rightarrow> n @ concat (map (\<lambda>m. sep @ m) r))"
proof (induction ns)
  case Nil
  then show ?case by simp
next
  case (Cons n r)
  then show ?case by (cases r) simp_all
qed

lemma names_of_themes:
  "mapE (\<lambda>x. readProp x ''name'') (map (\<lambda>n. JObj [(''name'', JStr n)]) ns) = Inr (map JStr ns)"
  by (induction ns) (simp_all add: readProp_def nullish_def)

lemma rw_themes_strings:
  assumes "get f ''theme'' = JArr (map (\<lambda>n. JObj [(''name'', JStr n)]) ns)"
  shows "rw_themes f = Inr (case ns of [] \<Rightarrow> [] | n # r \<Rightarrow> n @ concat (map (\<lambda>m. '', '' @ m) r))"
proof -
  from assms have "\<not> nullish f" by (cases f) (auto simp: nullish_def)
  then show ?thesis
    by (simp add: rw_themes_def readProp_ok assms or_js_truthy names_of_themes joinStr_strings)
qed

subsection \<open>C8: severity and summary of a situation report\<close>

text \<open>
  Claim C8. When the adapter returns a list for a parsed reply, it has one item for each
  record, in order. The summary of the item is the string \<^verbatim>\<open>themes\<close> of its record:
  the \<^verbatim>\<open>name\<close>s of \<^verbatim>\<open>fields.theme\<close> joined by a comma and a space. Its severity is 4
  when \<^verbatim>\<open>themes\<close> contains one of Epidemic, Conflict, Security, Protection, letters
  compared without case, and 3 otherwise.
\<close>

theorem reliefweb_severity_and_summary:
  "(reliefweb_adapt data = Inr out \<longrightarrow>
     (\<exists>ds. or_js (optprop data ''data'') (JArr []) = JArr ds \<and> length out = length ds
        \<and> (\<forall>i < length ds. \<exists>themes.
              rw_themes (or_js (get (ds ! i) ''fields'') (JObj [])) = Inr themes
              \<and> item_summary (out ! i) = JStr themes
              \<and> item_severity (out ! i) =
                  JNum (if \<exists>k \<in> {''Epidemic'', ''Conflict'', ''Security'', ''Protection''}.
                             \<exists>pre suf. map upperChar themes = pre @ map upperChar k @ suf
                        then 4 else 3))))
   \<and> (get f ''theme'' = JArr (map (\<lambda>n. JObj [(''name'', JStr n)]) ns) \<longrightarrow>
        rw_themes f = Inr (case ns of [] \<Rightarrow> [] | n # r \<Rightarrow> n @ concat (map (\<lambda>m. '', '' @ m) r)))"
proof -
  have kw: "set rw_keywords = {''Epidemic'', ''Conflict'', ''Security'', ''Protection''}"
    by (simp add: rw_keywords_def)
  have main: "\<exists>ds. or_js (optprop data ''data'') (JArr []) = JArr ds \<and> length out = length ds
        \<and> (\<forall>i < length ds. \<exists>themes.
              rw_themes (or_js (get (ds ! i) ''fields'') (JObj [])) = Inr themes
              \<and> item_summary (out ! i) = JStr themes
              \<and> item_severity (out ! i) =
                  JNum (if \<exists>k \<in> {''Epidemic'', ''Conflict'', ''Security'', ''Protection''}.
                             \<exists>pre suf. map upperChar themes = pre @ map upperChar k @ suf
                        then 4 else 3))"
    if "reliefweb_adapt data = Inr out"
  proof -
    from that obtain ds where ds: "or_js (optprop data ''data'') (JArr []) = JArr ds"
      and m: "map rwItem ds = map Inr out"
      by (auto simp: reliefweb_adapt_def bindE_eq_Inr asArray_eq_Inr mapE_eq_Inr)
    from m have len: "length out = length ds" by (metis length_map)
    have "\<exists>themes. rw_themes (or_js (get (ds ! i) ''fields'') (JObj [])) = Inr themes
              \<and> item_summary (out ! i) = JStr themes
              \<and> item_severity (out ! i) =
                  JNum (if \<exists>k \<in> {''Epidemic'', ''Conflict'', ''Security'', ''Protection''}.
                             \<exists>pre suf. map upperChar themes = pre @ map upperChar k @ suf
                        then 4 else 3)"
      if i: "i < length ds" for i
    proof -
      from m i len have "rwItem (ds ! i) = Inr (out ! i)"
        by (metis nth_map)
      from rwItem_shape [OF this] show ?thesis
        unfolding regex_alt_test_i_iff kw by blast
    qed
    with ds len show ?thesis by blast
  qed
  from main rw_themes_strings [of f ns] show ?thesis by blast
qed

text \<open>A report with the themes Health and Protection and Human Rights has severity 4.\<close>

theorem reliefweb_severity_and_summary_witness:
  "\<exists>out. reliefweb_adapt (JObj [(''data'', JArr [sample_report])]) = Inr out
     \<and> length out = 1
     \<and> item_summary (out ! 0) = JStr ''Health, Protection and Human Rights''
     \<and> item_severity (out ! 0) = JNum 4"
proof -
  let ?data = "JObj [(''data'', JArr [sample_report])]"
  have "\<not> isl (reliefweb_adapt ?data)" by code_simp
  then obtain out where o: "reliefweb_adapt ?data = Inr out"
    by (cases "reliefweb_adapt ?data") auto
  have d: "or_js (optprop ?data ''data'') (JArr []) = JArr [sample_report]"
    by (simp add: or_js_def optprop_def nullish_def)
  have t: "rw_themes (or_js (get sample_report ''fields'') (JObj []))
             = Inr ''Health, Protection and Human Rights''"
    by code_simp
  have "regex_alt_test_i rw_keywords ''Health, Protection and Human Rights''"
    by code_simp
  then have k: "\<exists>k \<in> {''Epidemic'', ''Conflict'', ''Security'', ''Protection''}.
       \<exists>pre suf. map upperChar ''Health, Protection and Human Rights'' = pre @ map upperChar k @ suf"
    by (simp only: regex_alt_test_i_iff) (simp add: rw_keywords_def)
  from reliefweb_severity_and_summary [of ?data out] o d
  have len: "length out = 1"
    and "\<exists>themes. rw_themes (or_js (get sample_report ''fields'') (JObj [])) = Inr themes
              \<and> item_summary (out ! 0) = JStr themes
              \<and> item_severity (out ! 0) =
                  JNum (if \<exists>k \<in> {''Epidemic'', ''Conflict'', ''Security'', ''Protection''}.
                             \<exists>pre suf. map upperChar themes = pre @ map upperChar k @ suf
                        then 4 else 3)"
    by auto
  then obtain themes where th: "rw_themes (or_js (get sample_report ''fields'') (JObj [])) = Inr themes"
    and s: "item_summary (out ! 0) = JStr themes"
    and v: "item_severity (out ! 0) =
                  JNum (if \<exists>k \<in> {''Epidemic'', ''Conflict'', ''Security'', ''Protection''}.
                             \<exists>pre suf. map upperChar themes = pre @ map upperChar k @ suf
                        then 4 else 3)"
    by blast
  from th t have e: "themes = ''Health, Protection and Human Rights''" by simp
  from v k have "item_severity (out ! 0) = JNum 4"
    unfolding e by (simp only: if_True)
  with o len s e show ?thesis by blast
qed

lemma mapE_Inr_all:
  assumes "mapE f xs = Inr ys" and "x \<in> set xs"
  shows "\<exists>y. f x = Inr y"
proof -
  from assms(1) have "map f xs = map Inr ys" by (simp add: mapE_eq_Inr)
  with assms(2) have "f x \<in> set (map Inr ys)" by (metis image_eqI set_map)
  then show ?thesis by auto
qed

lemma toISOString_None: "toISOString env None = Inl RangeError"
  by (simp add: toISOString_def)

lemma usItem_bad_date:
  assumes "optidx0 (get x ''pubDate'') = JStr s" and "s \<noteq> []" and "date_parse env s = None"
  shows "usItem env x \<noteq> Inr y"
proof
  assume "usItem env x = Inr y"
  then obtain date where "newDate env (or_js (optidx0 (get x ''pubDate'')) (JNum (now env))) = Inr date"
    and "\<exists>v. toISOString env date = Inr v"
    unfolding usItem_def bindE_eq_Inr readProp_eq_Inr by blast
  with assms show False
    by (simp add: or_js_def toISOString_None)
qed

lemma gdeltItem_bad_date:
  assumes "get a ''seendate'' = JStr s" and "s \<noteq> []" and "date_parse env s = None"
  shows "gdeltItem env a \<noteq> Inr y"
proof
  assume "gdeltItem env a = Inr y"
  then obtain stamp date where st: "orE (get a ''seendate'') (readProp a ''timestamp'') = Inr stamp"
    and nd: "newDate env (or_js stamp (JNum (now env))) = Inr date"
    and iso: "\<exists>v. toISOString env date = Inr v"
    unfolding gdeltItem_def bindE_eq_Inr readProp_eq_Inr by blast
  from st assms(2) have "stamp = JStr s"
    unfolding assms(1) by (simp add: orE_def)
  with nd assms(2,3) have "date = None"
    by (simp add: or_js_def)
  with iso show False
    by (simp add: toISOString_None)
qed

subsection \<open>C5: the timestamp of an RSS item and of a news item\<close>

text \<open>
  Claim C5 on a date the platform cannot parse. \<^verbatim>\<open>x.pubDate?.[0] || Date.now()\<close>
  takes the clock for a missing date only. A non-empty string that the date parser
  rejects makes an invalid date, \<^verbatim>\<open>toISOString\<close> throws a RangeError on it inside
  \<^verbatim>\<open>map\<close>, and the handler answers with the empty array: one matching channel item,
  or one article, with such a date removes every item of the response.
\<close>

theorem unparseable_date_empties_response:
  "(date_parse env s = None \<and> s \<noteq> []
      \<and> getText (net usTravel_request) = Inr t \<and> parseXml env t = Inr j
      \<and> rss_items j = JArr xs \<and> x \<in> set xs \<and> mentionsSA x = Inr True
      \<and> optidx0 (get x ''pubDate'') = JStr s
     \<longrightarrow> usTravel env net = \<lparr> status = 200, body = [] \<rparr>)
   \<and> (date_parse env s = None \<and> s \<noteq> []
      \<and> getJson env (net (gdelt_request qry)) = Inr data
      \<and> or_js (optprop data ''articles'') (JArr []) = JArr arts \<and> a \<in> set arts
      \<and> get a ''seendate'' = JStr s
     \<longrightarrow> gdelt env net qry = \<lparr> status = 200, body = [] \<rparr>)"
proof -
  have us: "usTravel env net = \<lparr> status = 200, body = [] \<rparr>"
    if bad: "date_parse env s = None" "s \<noteq> []" "optidx0 (get x ''pubDate'') = JStr s"
      and fetch: "getText (net usTravel_request) = Inr t" "parseXml env t = Inr j"
      and xs: "rss_items j = JArr xs" "x \<in> set xs" "mentionsSA x = Inr True"
  proof -
    have "usTravel_adapt env j \<noteq> Inr out" for out
    proof
      assume "usTravel_adapt env j = Inr out"
      with xs(1) obtain kept items where kept: "filterE mentionsSA xs = Inr kept"
        and items: "mapE (usItem env) kept = Inr items"
        by (auto simp: usTravel_adapt_def bindE_eq_Inr)
      from filterE_eq_Inr [OF kept] xs(2,3) have "x \<in> set kept" by simp
      from mapE_Inr_all [OF items this] usItem_bad_date [OF bad(3) bad(2) bad(1)]
      show False by blast
    qed
    then obtain e where "usTravel_adapt env j = Inl e"
      by (cases "usTravel_adapt env j") auto
    with fetch show ?thesis by (simp add: usTravel_def respond_Inl)
  qed
  have gd: "gdelt env net qry = \<lparr> status = 200, body = [] \<rparr>"
    if bad: "date_parse env s = None" "s \<noteq> []" "get a ''seendate'' = JStr s"
      and fetch: "getJson env (net (gdelt_request qry)) = Inr data"
      and arts: "or_js (optprop data ''articles'') (JArr []) = JArr arts" "a \<in> set arts"
  proof -
    have "gdelt_adapt env data \<noteq> Inr out" for out
    proof
      assume "gdelt_adapt env data = Inr out"
      with arts(1) have items: "mapE (gdeltItem env) arts = Inr out"
        by (simp add: gdelt_adapt_def)
      from mapE_Inr_all [OF items arts(2)] gdeltItem_bad_date [OF bad(3) bad(2) bad(1)]
      show False by blast
    qed
    then obtain e where "gdelt_adapt env data = Inl e"
      by (cases "gdelt_adapt env data") auto
    with fetch show ?thesis by (simp add: gdelt_def respond_Inl)
  qed
  from us gd show ?thesis by blast
qed

text \<open>
  A feed of two matching items and a reply of two articles, the second of each dated
  \<^verbatim>\<open>not a date\<close>: both responses are empty.
\<close>

theorem unparseable_date_empties_response_witness:
  "usTravel sample_env (\<lambda>r. Reply 200 sample_feed_text) = \<lparr> status = 200, body = [] \<rparr>
   \<and> gdelt sample_env (\<lambda>r. Reply 200 sample_articles_bad_date_text) Map.empty
       = \<lparr> status = 200, body = [] \<rparr>
   \<and> length (filter (\<lambda>x. mentionsSA x = Inr True)
               (case rss_items sample_feed_bad_date of JArr xs \<Rightarrow> xs | _ \<Rightarrow> [])) = 2"
proof -
  let ?bad = "rss_entry ''South Africa - Level 3'' ''Reconsider travel'' ''not a date''"
  let ?good = "rss_entry ''South Africa - Level 2'' ''Exercise increased caution'' sample_date"
  let ?a = "JObj [(''url'', JStr ''https://example.org/b''), (''title'', JStr ''Unrest in Durban''),
              (''seendate'', JStr ''not a date''), (''domain'', JStr ''example.org'')]"
  let ?b = "JObj [(''url'', JStr ''https://example.org/a''), (''title'', JStr ''Protest in Durban''),
              (''seendate'', JStr ''2024-01-01T00:00:00Z''), (''domain'', JStr ''example.org'')]"
  have p: "date_parse sample_env ''not a date'' = None"
    by (simp add: sample_env_def sample_date_def)
  have f1: "getText (Reply 200 sample_feed_text) = Inr sample_feed_text"
    by (simp add: getText_def res_ok_def)
  have f2: "parseXml sample_env sample_feed_text = Inr sample_feed_bad_date"
    by (simp add: parseXml_def sample_env_def)
  have i: "rss_items sample_feed_bad_date = JArr [?good, ?bad]"
    by (simp add: rss_items_def sample_feed_bad_date_def feed_of_def optprop_def nullish_def
        or_js_def)
  have m: "mentionsSA ?bad = Inr True" by code_simp
  have d: "optidx0 (get ?bad ''pubDate'') = JStr ''not a date''"
    by (simp add: rss_entry_def)
  have g1: "getJson sample_env (Reply 200 sample_articles_bad_date_text) = Inr sample_articles_bad_date"
    by code_simp
  have g2: "or_js (optprop sample_articles_bad_date ''articles'') (JArr []) = JArr [?b, ?a]"
    by (simp add: sample_articles_bad_date_def optprop_def nullish_def or_js_def)
  have n: "length (filter (\<lambda>x. mentionsSA x = Inr True)
               (case rss_items sample_feed_bad_date of JArr xs \<Rightarrow> xs | _ \<Rightarrow> [])) = 2"
    by code_simp
  note th1 = unparseable_date_empties_response
    [of sample_env "''not a date''" "\<lambda>r. Reply 200 sample_feed_text" sample_feed_text
        sample_feed_bad_date "[?good, ?bad]" ?bad, THEN conjunct1]
  note th2 = unparseable_date_empties_response
    [of sample_env "''not a date''" "\<lambda>r. Reply 200 sample_articles_bad_date_text"
        _ _ _ _ Map.empty sample_articles_bad_date "[?b, ?a]" ?a, THEN conjunct2]
  have A: "usTravel sample_env (\<lambda>r. Reply 200 sample_feed_text) = \<lparr> status = 200, body = [] \<rparr>"
    using th1 p f1 f2 i m d by simp
  have B: "gdelt sample_env (\<lambda>r. Reply 200 sample_articles_bad_date_text) Map.empty
       = \<lparr> status = 200, body = [] \<rparr>"
    using th2 p g1 g2 by simp
  from A B n show ?thesis by blast
qed

text \<open>
  The part of the claim that holds: an item that is emitted for a record with no date
  has the current time as its ts.
\<close>

lemma missing_date_falls_back:
  "usItem env x = Inr it \<Longrightarrow> \<not> truthy (optidx0 (get x ''pubDate''))
     \<Longrightarrow> \<bar>now env\<bar> \<le> 8640000000000000 \<Longrightarrow> item_ts it = JStr (iso_string env (now env))"
  "gdeltItem env a = Inr it' \<Longrightarrow> \<not> truthy (get a ''seendate'') \<Longrightarrow> \<not> truthy (get a ''timestamp'')
     \<Longrightarrow> \<bar>now env\<bar> \<le> 8640000000000000 \<Longrightarrow> item_ts it' = JStr (iso_string env (now env))"
  by (auto simp: usItem_def gdeltItem_def bindE_eq_Inr readProp_eq_Inr orE_eq_Inr or_js_def
      timeClip_def toISOString_def item_def literal_def)

lemma newDate_now: "newDate (env\<lparr>now := t\<rparr>) v = newDate env v"
  by (cases v) simp_all

lemma toISOString_now: "toISOString (env\<lparr>now := t\<rparr>) d = toISOString env d"
  by (cases d) (simp_all add: toISOString_def)

lemma getJson_now: "getJson (env\<lparr>now := t\<rparr>) up = getJson env up"
  by (cases up) (simp_all add: getJson_def)

lemma parseXml_now: "parseXml (env\<lparr>now := t\<rparr>) xml = parseXml env xml"
  by (simp add: parseXml_def)

lemma bindE_cong_Inr: "(\<And>v. m = Inr v \<Longrightarrow> f v = g v) \<Longrightarrow> bindE m f = bindE m g"
  by (cases m) simp_all

lemma mapE_cong_set: "(\<And>x. x \<in> set xs \<Longrightarrow> f x = g x) \<Longrightarrow> mapE f xs = mapE g xs"
  by (induction xs) simp_all

lemma usItem_dated:
  assumes "truthy (optidx0 (get x ''pubDate''))"
  shows "usItem (env\<lparr>now := t\<rparr>) x = usItem env x"
proof (cases "nullish x")
  case True
  then show ?thesis by (simp add: usItem_def readProp_def)
next
  case False
  then show ?thesis
    by (simp add: usItem_def readProp_ok or_js_truthy [OF assms] newDate_now toISOString_now)
qed

lemma gdeltItem_dated:
  assumes "truthy (get a ''seendate'') \<or> truthy (get a ''timestamp'')"
  shows "gdeltItem (env\<lparr>now := t\<rparr>) a = gdeltItem env a"
proof (cases "nullish a")
  case True
  then show ?thesis by (simp add: gdeltItem_def readProp_def)
next
  case False
  have o: "orE (get a ''seendate'') (Inr (get a ''timestamp''))
             = Inr (or_js (get a ''seendate'') (get a ''timestamp''))"
    by (simp add: orE_def or_js_def)
  from assms have "truthy (or_js (get a ''seendate'') (get a ''timestamp''))"
    by (auto simp: or_js_def)
  then have s: "or_js (or_js (get a ''seendate'') (get a ''timestamp'')) b
                  = or_js (get a ''seendate'') (get a ''timestamp'')" for b
    by (rule or_js_truthy)
  from False show ?thesis
    by (simp add: gdeltItem_def readProp_ok o s newDate_now toISOString_now)
qed

lemma govuk_adapt_dated:
  assumes "truthy (get (or_js (get (or_js (optprop data ''details'') (JObj [])) ''latest_update'')
                         (JObj [])) ''published'')
           \<or> truthy (get data ''public_updated_at'')"
  shows "govuk_adapt (env\<lparr>now := t\<rparr>) data = govuk_adapt env data"
proof (cases "nullish data")
  case True
  with assms show ?thesis
    by (auto simp: nullish_def optprop_def or_js_def)
next
  case False
  with assms show ?thesis
    by (auto simp: govuk_adapt_def Let_def readProp_ok orE_def)
qed

subsection \<open>C9: two calls in succession\<close>

text \<open>
  Claim C9 says that two calls with the same parameters and an unchanged upstream give
  equal arrays. The handlers keep no state, but three of them read the clock: an item
  whose record has no date takes the current time as its ts. For the travel-advice
  document \<^verbatim>\<open>{}\<close>, two calls one second apart give items with different ts.
\<close>

theorem clock_fallback_differs:
  "map item_ts (body (govuk (sample_env\<lparr>now := 1704067200000\<rparr>) (\<lambda>r. Reply 200 ''{}'')))
     = [JStr ''2024-01-01T00:00:00.000Z'']
   \<and> map item_ts (body (govuk (sample_env\<lparr>now := 1704067201000\<rparr>) (\<lambda>r. Reply 200 ''{}'')))
     = [JStr ''2024-01-01T00:00:01.000Z'']
   \<and> govuk (sample_env\<lparr>now := 1704067200000\<rparr>) (\<lambda>r. Reply 200 ''{}'')
       \<noteq> govuk (sample_env\<lparr>now := 1704067201000\<rparr>) (\<lambda>r. Reply 200 ''{}'')"
proof -
  have a: "map item_ts (body (govuk (sample_env\<lparr>now := 1704067200000\<rparr>) (\<lambda>r. Reply 200 ''{}'')))
     = [JStr ''2024-01-01T00:00:00.000Z'']"
    by code_simp
  have b: "map item_ts (body (govuk (sample_env\<lparr>now := 1704067201000\<rparr>) (\<lambda>r. Reply 200 ''{}'')))
     = [JStr ''2024-01-01T00:00:01.000Z'']"
    by code_simp
  have "govuk (sample_env\<lparr>now := 1704067200000\<rparr>) (\<lambda>r. Reply 200 ''{}'')
       \<noteq> govuk (sample_env\<lparr>now := 1704067201000\<rparr>) (\<lambda>r. Reply 200 ''{}'')"
  proof
    assume "govuk (sample_env\<lparr>now := 1704067200000\<rparr>) (\<lambda>r. Reply 200 ''{}'')
       = govuk (sample_env\<lparr>now := 1704067201000\<rparr>) (\<lambda>r. Reply 200 ''{}'')"
    then have "map item_ts (body (govuk (sample_env\<lparr>now := 1704067200000\<rparr>) (\<lambda>r. Reply 200 ''{}'')))
       = map item_ts (body (govuk (sample_env\<lparr>now := 1704067201000\<rparr>) (\<lambda>r. Reply 200 ''{}'')))"
      by simp
    then show False unfolding a b by simp
  qed
  with a b show ?thesis by blast
qed

text \<open>
  Claim C9 as amended. For two calls at any two clock readings, with the same
  parameters, the same upstream replies and the same platform otherwise: the
  situation-reports endpoint gives equal responses; the travel-advice endpoint does when
  the document has a truthy \<^verbatim>\<open>details.latest_update.published\<close> or
  \<^verbatim>\<open>public_updated_at\<close>; the RSS endpoint does when every channel item that passes
  the filter has a \<^verbatim>\<open>pubDate\<close>; the news-events endpoint does when every article
  has a truthy \<^verbatim>\<open>seendate\<close> or \<^verbatim>\<open>timestamp\<close>.
\<close>

theorem clock_independence:
  "reliefweb (env\<lparr>now := ta\<rparr>) net qry = reliefweb (env\<lparr>now := tb\<rparr>) net qry
   \<and> ((\<forall>data. getJson env (net govuk_request) = Inr data \<longrightarrow>
          truthy (get (or_js (get (or_js (optprop data ''details'') (JObj [])) ''latest_update'')
                        (JObj [])) ''published'')
          \<or> truthy (get data ''public_updated_at''))
      \<longrightarrow> govuk (env\<lparr>now := ta\<rparr>) net = govuk (env\<lparr>now := tb\<rparr>) net)
   \<and> ((\<forall>xml j xs x. getText (net usTravel_request) = Inr xml \<and> parseXml env xml = Inr j
            \<and> rss_items j = JArr xs \<and> x \<in> set xs \<and> mentionsSA x = Inr True
          \<longrightarrow> truthy (optidx0 (get x ''pubDate'')))
      \<longrightarrow> usTravel (env\<lparr>now := ta\<rparr>) net = usTravel (env\<lparr>now := tb\<rparr>) net)
   \<and> ((\<forall>data arts a. getJson env (net (gdelt_request qry)) = Inr data
            \<and> or_js (optprop data ''articles'') (JArr []) = JArr arts \<and> a \<in> set arts
          \<longrightarrow> truthy (get a ''seendate'') \<or> truthy (get a ''timestamp''))
      \<longrightarrow> gdelt (env\<lparr>now := ta\<rparr>) net qry = gdelt (env\<lparr>now := tb\<rparr>) net qry)"
proof -
  have rw: "reliefweb (env\<lparr>now := ta\<rparr>) net qry = reliefweb (env\<lparr>now := tb\<rparr>) net qry"
    by (simp add: reliefweb_def getJson_now)
  have gv: "govuk (env\<lparr>now := ta\<rparr>) net = govuk (env\<lparr>now := tb\<rparr>) net"
    if h: "\<forall>data. getJson env (net govuk_request) = Inr data \<longrightarrow>
          truthy (get (or_js (get (or_js (optprop data ''details'') (JObj [])) ''latest_update'')
                        (JObj [])) ''published'')
          \<or> truthy (get data ''public_updated_at'')"
  proof -
    have "bindE (getJson env (net govuk_request)) (govuk_adapt (env\<lparr>now := t\<rparr>))
           = bindE (getJson env (net govuk_request)) (govuk_adapt env)" for t
      using h by (intro bindE_cong_Inr govuk_adapt_dated) blast
    then show ?thesis by (simp add: govuk_def getJson_now)
  qed
  have us: "usTravel (env\<lparr>now := ta\<rparr>) net = usTravel (env\<lparr>now := tb\<rparr>) net"
    if h: "\<forall>xml j xs x. getText (net usTravel_request) = Inr xml \<and> parseXml env xml = Inr j
            \<and> rss_items j = JArr xs \<and> x \<in> set xs \<and> mentionsSA x = Inr True
          \<longrightarrow> truthy (optidx0 (get x ''pubDate''))"
  proof -
    have ad: "usTravel_adapt (env\<lparr>now := t\<rparr>) j = usTravel_adapt env j"
      if f: "getText (net usTravel_request) = Inr xml" "parseXml env xml = Inr j" for t xml j
      unfolding usTravel_adapt_def
    proof (intro bindE_cong_Inr)
      fix xs kept
      assume xs: "asArray (rss_items j) = Inr xs" and kept: "filterE mentionsSA xs = Inr kept"
      from xs have r: "rss_items j = JArr xs" by (simp add: asArray_eq_Inr)
      have "usItem (env\<lparr>now := t\<rparr>) x = usItem env x" if "x \<in> set kept" for x
      proof -
        from that filterE_eq_Inr [OF kept] have "x \<in> set xs" "mentionsSA x = Inr True"
          by auto
        with h f r have "truthy (optidx0 (get x ''pubDate''))" by blast
        then show ?thesis by (rule usItem_dated)
      qed
      then have "mapE (usItem (env\<lparr>now := t\<rparr>)) kept = mapE (usItem env) kept"
        by (rule mapE_cong_set)
      then show "bindE (mapE (usItem (env\<lparr>now := t\<rparr>)) kept) (\<lambda>items. Inr (take 5 items))
               = bindE (mapE (usItem env) kept) (\<lambda>items. Inr (take 5 items))"
        by simp
    qed
    have "bindE (getText (net usTravel_request))
             (\<lambda>xml. bindE (parseXml env xml) (usTravel_adapt (env\<lparr>now := t\<rparr>)))
        = bindE (getText (net usTravel_request))
             (\<lambda>xml. bindE (parseXml env xml) (usTravel_adapt env))" for t
    proof (intro bindE_cong_Inr)
      fix xml j
      assume "getText (net usTravel_request) = Inr xml" "parseXml env xml = Inr j"
      then show "usTravel_adapt (env\<lparr>now := t\<rparr>) j = usTravel_adapt env j"
        by (rule ad)
    qed
    then show ?thesis by (simp add: usTravel_def parseXml_now)
  qed
  have gd: "gdelt (env\<lparr>now := ta\<rparr>) net qry = gdelt (env\<lparr>now := tb\<rparr>) net qry"
    if h: "\<forall>data arts a. getJson env (net (gdelt_request qry)) = Inr data
            \<and> or_js (optprop data ''articles'') (JArr []) = JArr arts \<and> a \<in> set arts
          \<longrightarrow> truthy (get a ''seendate'') \<or> truthy (get a ''timestamp'')"
  proof -
    have ad: "gdelt_adapt (env\<lparr>now := t\<rparr>) data = gdelt_adapt env data"
      if f: "getJson env (net (gdelt_request qry)) = Inr data" for t data
      unfolding gdelt_adapt_def
    proof (intro bindE_cong_Inr)
      fix arts
      assume "asArray (or_js (optprop data ''articles'') (JArr [])) = Inr arts"
      then have r: "or_js (optprop data ''articles'') (JArr []) = JArr arts"
        by (simp add: asArray_eq_Inr)
      have "gdeltItem (env\<lparr>now := t\<rparr>) a = gdeltItem env a" if "a \<in> set arts" for a
        using h f r that by (intro gdeltItem_dated) blast
      then show "mapE (gdeltItem (env\<lparr>now := t\<rparr>)) arts = mapE (gdeltItem env) arts"
        by (rule mapE_cong_set)
    qed
    have "bindE (getJson env (net (gdelt_request qry))) (gdelt_adapt (env\<lparr>now := t\<rparr>))
        = bindE (getJson env (net (gdelt_request qry))) (gdelt_adapt env)" for t
      by (intro bindE_cong_Inr) (erule ad)
    then show ?thesis by (simp add: gdelt_def getJson_now)
  qed
  from rw gv us gd show ?thesis by blast
qed

text \<open>A travel-advice document with \<^verbatim>\<open>public_updated_at\<close>, one second apart.\<close>

theorem clock_independence_witness:
  "govuk (sample_env\<lparr>now := 1704067200000\<rparr>) (\<lambda>r. Reply 200 sample_advice_text)
     = govuk (sample_env\<lparr>now := 1704067201000\<rparr>) (\<lambda>r. Reply 200 sample_advice_text)
   \<and> body (govuk (sample_env\<lparr>now := 1704067200000\<rparr>) (\<lambda>r. Reply 200 sample_advice_text)) \<noteq> []"
proof -
  have g: "getJson sample_env (Reply 200 sample_advice_text) = Inr sample_advice"
    by code_simp
  have t: "truthy (get sample_advice ''public_updated_at'')"
    by (simp add: sample_advice_def)
  have ne: "body (govuk (sample_env\<lparr>now := 1704067200000\<rparr>) (\<lambda>r. Reply 200 sample_advice_text)) \<noteq> []"
    by code_simp
  from clock_independence
    [where env = sample_env and ta = 1704067200000 and tb = 1704067201000
       and net = "\<lambda>r. Reply 200 sample_advice_text" and qry = Map.empty,
     THEN conjunct2, THEN conjunct1] g t
  have "govuk (sample_env\<lparr>now := 1704067200000\<rparr>) (\<lambda>r. Reply 200 sample_advice_text)
     = govuk (sample_env\<lparr>now := 1704067201000\<rparr>) (\<lambda>r. Reply 200 sample_advice_text)"
    by simp
  with ne show ?thesis by blast
qed

subsection \<open>The items of a response and the records of the reply\<close>

lemma map_Inr_transfer:
  assumes "map f xs = map Inr ys" and "\<And>x y. x \<in> set xs \<Longrightarrow> f x = Inr y \<Longrightarrow> g y = h x"
  shows "map g ys = map h xs"
  using assms
proof (induction xs arbitrary: ys)
  case Nil
  then show ?case by simp
next
  case (Cons x xs)
  then obtain y ys' where ys: "ys = y # ys'" by (cases ys) auto
  with Cons.prems(1) have fx: "f x = Inr y" and rest: "map f xs = map Inr ys'" by auto
  from Cons.prems(2) [of x y] fx have "g y = h x" by simp
  moreover from Cons.IH [OF rest] Cons.prems(2) have "map g ys' = map h xs" by simp
  ultimately show ?case by (simp add: ys)
qed

lemma body_respond_nonempty:
  "body (respond r) \<noteq> [] \<Longrightarrow> r = Inr (body (respond r))"
  by (cases r) (simp_all add: respond_def res_json_def)

lemma govuk_adapt_nullish: "nullish data \<Longrightarrow> govuk_adapt env data = Inl TypeError"
  by (auto simp: govuk_adapt_def Let_def optprop_def nullish_def or_js_def orE_def readProp_def)

lemma govuk_adapt_exact:
  assumes "govuk_adapt env data = Inr out"
  shows "out =
     [\<lparr> item_id = JStr ''govuk:za'',
        item_ts = or_js (get (or_js (get (or_js (get data ''details'') (JObj [])) ''latest_update'')
                               (JObj [])) ''published'')
                   (or_js (get data ''public_updated_at'') (JStr (iso_string env (now env)))),
        item_source = JStr ''gov.uk'',
        item_title = JStr govuk_title,
        item_summary = or_js (get (or_js (get data ''details'') (JObj [])) ''change_description'')
                         (or_js (get (or_js (get data ''details'') (JObj [])) ''summary'')
                            (JStr ''Travel advice'')),
        item_severity = JNum 3,
        item_links = JArr [JStr ''https://www.gov.uk/foreign-travel-advice/south-africa''],
        item_lat = JUndefined, item_lng = JUndefined \<rparr>]"
proof -
  from assms have nn: "\<not> nullish data"
    using govuk_adapt_nullish [of data env] by auto
  have d: "optprop data ''details'' = get data ''details''"
    using nn by (simp add: optprop_def)
  have r: "readProp (or_js a (JObj [])) k = Inr (get (or_js a (JObj [])) k)" for a k
    by (simp add: readProp_ok)
  have o2: "orE a (bindE (Inr v) (\<lambda>x. Inr (g x))) = Inr (or_js a (g v))" for a v g
    by (simp add: orE_def or_js_def)
  have o: "orE a (Inr b) = Inr (or_js a b)" for a b
    by (simp add: orE_def or_js_def)
  let ?pub = "get (or_js (get (or_js (get data ''details'') (JObj [])) ''latest_update'')
                               (JObj [])) ''published''"
  let ?pua = "get data ''public_updated_at''"
  let ?clock = "bindE (toISOString env (timeClip (now env))) (\<lambda>s. Inr (JStr s))"
  from assms obtain change where
    c: "orE ?pub (orE ?pua ?clock) = Inr change"
    unfolding govuk_adapt_def Let_def d
    by (auto simp: r readProp_ok [OF nn] bindE_eq_Inr)
  have ch: "change = or_js ?pub (or_js ?pua (JStr (iso_string env (now env))))"
  proof (cases "truthy ?pub \<or> truthy ?pua")
    case True
    with c show ?thesis by (auto simp: orE_def or_js_def)
  next
    case False
    with c have "?clock = Inr change" by (simp add: orE_def)
    then have "change = JStr (iso_string env (now env))"
      by (auto simp: bindE_eq_Inr toISOString_def timeClip_def split: if_splits option.splits)
    with False show ?thesis by (simp add: or_js_def)
  qed
  from assms show ?thesis
    unfolding govuk_adapt_def Let_def d
    by (auto simp add: r readProp_ok [OF nn] c ch o2 o item_def literal_def coalesce_def
        nullish_def or_js_truthy)
qed

lemma govuk_body_char:
  assumes "it \<in> set (body (govuk env net))"
  shows "\<exists>data. getJson env (net govuk_request) = Inr data \<and> govuk_adapt env data = Inr [it]"
proof -
  from assms obtain out data where d: "getJson env (net govuk_request) = Inr data"
    and o: "govuk_adapt env data = Inr out" and i: "it \<in> set out"
    by (auto simp: govuk_def body_respond bindE_eq_Inr)
  from govuk_adapt_exact [OF o] i have "out = [it]" by auto
  with d o show ?thesis by blast
qed

lemma usTravel_body_char:
  assumes "body (usTravel env net) \<noteq> []"
  shows "\<exists>t j xs items. getText (net usTravel_request) = Inr t \<and> parseXml env t = Inr j
     \<and> rss_items j = JArr xs
     \<and> mapE (usItem env) (filter (\<lambda>x. mentionsSA x = Inr True) xs) = Inr items
     \<and> body (usTravel env net) = take 5 items"
proof -
  from body_respond_nonempty [OF assms [unfolded usTravel_def]]
  obtain t j xs kept items where "getText (net usTravel_request) = Inr t" "parseXml env t = Inr j"
    "rss_items j = JArr xs" "filterE mentionsSA xs = Inr kept"
    "mapE (usItem env) kept = Inr items" "body (usTravel env net) = take 5 items"
    unfolding usTravel_def [symmetric]
    by (auto simp: usTravel_adapt_def bindE_eq_Inr asArray_eq_Inr)
  with filterE_eq_Inr [of mentionsSA xs kept] show ?thesis by blast
qed

lemma reliefweb_body_char:
  assumes "body (reliefweb env net qry) \<noteq> []"
  shows "\<exists>data ds. getJson env (net (reliefweb_request qry)) = Inr data
     \<and> or_js (optprop data ''data'') (JArr []) = JArr ds
     \<and> map rwItem ds = map Inr (body (reliefweb env net qry))"
  using body_respond_nonempty [OF assms [unfolded reliefweb_def]]
  unfolding reliefweb_def [symmetric]
  by (auto simp: reliefweb_adapt_def bindE_eq_Inr asArray_eq_Inr mapE_eq_Inr)

lemma gdelt_body_char:
  assumes "body (gdelt env net qry) \<noteq> []"
  shows "\<exists>data arts. getJson env (net (gdelt_request qry)) = Inr data
     \<and> or_js (optprop data ''articles'') (JArr []) = JArr arts
     \<and> map (gdeltItem env) arts = map Inr (body (gdelt env net qry))"
  using body_respond_nonempty [OF assms [unfolded gdelt_def]]
  unfolding gdelt_def [symmetric]
  by (auto simp: gdelt_adapt_def bindE_eq_Inr asArray_eq_Inr mapE_eq_Inr)

lemma usItem_kept_shape:
  assumes "usItem env x = Inr it" and "mentionsSA x = Inr True"
  shows "(\<exists>s. item_title it = JStr s \<and> s \<noteq> [])"
proof -
  from assms(2) obtain t where t: "or_js (optidx0 (get x ''title'')) (JStr []) = JStr t"
    by (auto simp: mentionsSA_iff)
  from usItem_shape [OF assms(1)] have "truthy (item_title it)" by simp
  moreover from assms(1) have "item_title it = or_js (optidx0 (get x ''title'')) (JStr ''US Travel Advisory'')"
    by (auto simp: usItem_def bindE_eq_Inr readProp_eq_Inr item_def literal_def)
  ultimately show ?thesis using t
    by (cases "truthy (optidx0 (get x ''title''))") (auto simp: or_js_def)
qed

lemma gdeltItem_summary:
  assumes "gdeltItem env a = Inr it"
  shows "if truthy (get a ''sourceCountry'')
         then \<exists>ds cs. toStr (get a ''domain'') = Inr ds \<and> toStr (get a ''sourceCountry'') = Inr cs
                \<and> item_summary it = JStr (ds @ bullet @ cs)
         else item_summary it = get a ''domain''"
  using assms
  by (auto simp: gdeltItem_def bindE_eq_Inr readProp_eq_Inr item_def literal_def split: if_splits)

subsection \<open>C2: the shape of an emitted item\<close>

text \<open>
  Claim C2 says that every emitted item has all of id, ts, source, title, summary,
  severity and links, also when the upstream record omits a title or a creation date.
  The normalizer has defaults for severity and links only. A situation report with no
  \<^verbatim>\<open>title\<close> and no \<^verbatim>\<open>date.created\<close> is emitted with both \<^verbatim>\<open>undefined\<close>, and the
  response carries neither key.
\<close>

theorem sparse_report_lacks_title_and_ts:
  "map json_keys (body (reliefweb sample_env (\<lambda>r. Reply 200 sample_reports_text) Map.empty))
     = [[''id'', ''source'', ''summary'', ''severity'', ''links'']]
   \<and> map item_title (body (reliefweb sample_env (\<lambda>r. Reply 200 sample_reports_text) Map.empty))
     = [JUndefined]
   \<and> map item_ts (body (reliefweb sample_env (\<lambda>r. Reply 200 sample_reports_text) Map.empty))
     = [JUndefined]"
  by code_simp

text \<open>
  Claim C2 as amended. Every item of a response of any of the four endpoints has a string
  id, a severity among the integers 3, 4, 5 and a links sequence of one element, and its
  source is the fixed tag of its own adapter; these four keys are in the response.
  \<^item> The travel-advice item has the fixed title, severity 3, and always a ts and a
    summary: ts is \<^verbatim>\<open>details.latest_update.published\<close> of the fetched document, else
    its \<^verbatim>\<open>public_updated_at\<close>, else the current time as a string; the summary is
    \<^verbatim>\<open>details.change_description\<close>, else \<^verbatim>\<open>details.summary\<close>, else the placeholder.
  \<^item> An RSS item has severity 3, a string ts, a non-empty string title and a string
    summary.
  \<^item> A situation report has severity 3 or 4 and a string summary; the ts and the title of
    the i-th item are \<^verbatim>\<open>fields["date.created"]\<close> and \<^verbatim>\<open>fields.title\<close> of the i-th
    record of the reply as they are, \<^verbatim>\<open>undefined\<close> when the record has none.
  \<^item> A news item has a string ts; the title of the i-th item is the \<^verbatim>\<open>title\<close> of the
    i-th article as it is, and its summary is a string when the article has a truthy
    \<^verbatim>\<open>sourceCountry\<close> and the \<^verbatim>\<open>domain\<close> of the article as it is otherwise.
  The normalizer puts 3 for a severity that is \<^verbatim>\<open>null\<close> or \<^verbatim>\<open>undefined\<close> and the
  empty sequence for falsy links, and copies id, ts, source, title and summary.
\<close>

theorem emitted_items_shape:
  "(it \<in> set (body (govuk env net)) \<union> set (body (usTravel env net))
         \<union> set (body (reliefweb env net qry)) \<union> set (body (gdelt env net qry))
      \<longrightarrow> (\<exists>s. item_id it = JStr s)
        \<and> item_severity it \<in> {JNum 3, JNum 4, JNum 5}
        \<and> (\<exists>u. item_links it = JArr [u])
        \<and> {''id'', ''source'', ''severity'', ''links''} \<subseteq> set (json_keys it))
   \<and> (it \<in> set (body (govuk env net))
      \<longrightarrow> item_source it = JStr ''gov.uk'' \<and> item_title it = JStr govuk_title
        \<and> item_severity it = JNum 3
        \<and> {''ts'', ''title'', ''summary''} \<subseteq> set (json_keys it)
        \<and> (\<exists>data. getJson env (net govuk_request) = Inr data
              \<and> item_ts it =
                  or_js (get (or_js (get (or_js (get data ''details'') (JObj []))
                                       ''latest_update'') (JObj [])) ''published'')
                    (or_js (get data ''public_updated_at'') (JStr (iso_string env (now env))))
              \<and> item_summary it =
                  or_js (get (or_js (get data ''details'') (JObj [])) ''change_description'')
                    (or_js (get (or_js (get data ''details'') (JObj [])) ''summary'')
                       (JStr ''Travel advice''))))
   \<and> (it \<in> set (body (usTravel env net))
      \<longrightarrow> item_source it = JStr ''travel.state.gov'' \<and> item_severity it = JNum 3
        \<and> (\<exists>s. item_ts it = JStr s) \<and> (\<exists>s. item_title it = JStr s \<and> s \<noteq> [])
        \<and> (\<exists>s. item_summary it = JStr s))
   \<and> (it \<in> set (body (reliefweb env net qry))
      \<longrightarrow> item_source it = JStr ''reliefweb'' \<and> item_severity it \<in> {JNum 3, JNum 4}
        \<and> (\<exists>s. item_summary it = JStr s))
   \<and> (body (reliefweb env net qry) \<noteq> []
      \<longrightarrow> (\<exists>data ds. getJson env (net (reliefweb_request qry)) = Inr data
             \<and> or_js (optprop data ''data'') (JArr []) = JArr ds
             \<and> map item_ts (body (reliefweb env net qry))
                 = map (\<lambda>d. get (or_js (get d ''fields'') (JObj [])) ''date.created'') ds
             \<and> map item_title (body (reliefweb env net qry))
                 = map (\<lambda>d. get (or_js (get d ''fields'') (JObj [])) ''title'') ds))
   \<and> (it \<in> set (body (gdelt env net qry))
      \<longrightarrow> item_source it = JStr ''gdelt'' \<and> (\<exists>s. item_ts it = JStr s))
   \<and> (body (gdelt env net qry) \<noteq> []
      \<longrightarrow> (\<exists>data arts. getJson env (net (gdelt_request qry)) = Inr data
             \<and> or_js (optprop data ''articles'') (JArr []) = JArr arts
             \<and> map item_title (body (gdelt env net qry)) = map (\<lambda>a. get a ''title'') arts
             \<and> length (body (gdelt env net qry)) = length arts
             \<and> (\<forall>i < length arts.
                   if truthy (get (arts ! i) ''sourceCountry'')
                   then \<exists>s. item_summary (body (gdelt env net qry) ! i) = JStr s
                   else item_summary (body (gdelt env net qry) ! i) = get (arts ! i) ''domain'')))
   \<and> item_severity (item ob) =
         (if item_severity ob = JUndefined \<or> item_severity ob = JNull then JNum 3
          else item_severity ob)
   \<and> item_links (item ob) = (if truthy (item_links ob) then item_links ob else JArr [])
   \<and> item_id (item ob) = item_id ob \<and> item_ts (item ob) = item_ts ob
   \<and> item_source (item ob) = item_source ob \<and> item_title (item ob) = item_title ob
   \<and> item_summary (item ob) = item_summary ob"
proof -
  have g: "item_id it = JStr ''govuk:za'' \<and> item_severity it = JNum 3
        \<and> item_links it = JArr [JStr ''https://www.gov.uk/foreign-travel-advice/south-africa'']
        \<and> item_source it = JStr ''gov.uk'' \<and> item_title it = JStr govuk_title
        \<and> item_ts it \<noteq> JUndefined \<and> item_summary it \<noteq> JUndefined
        \<and> (\<exists>data. getJson env (net govuk_request) = Inr data
              \<and> item_ts it =
                  or_js (get (or_js (get (or_js (get data ''details'') (JObj []))
                                       ''latest_update'') (JObj [])) ''published'')
                    (or_js (get data ''public_updated_at'') (JStr (iso_string env (now env))))
              \<and> item_summary it =
                  or_js (get (or_js (get data ''details'') (JObj [])) ''change_description'')
                    (or_js (get (or_js (get data ''details'') (JObj [])) ''summary'')
                       (JStr ''Travel advice'')))"
    if "it \<in> set (body (govuk env net))"
  proof -
    from govuk_body_char [OF that] obtain data where d: "getJson env (net govuk_request) = Inr data"
      and a: "govuk_adapt env data = Inr [it]" by blast
    from govuk_adapt_shape [OF a] have s: "item_id it = JStr ''govuk:za'' \<and> item_severity it = JNum 3
        \<and> item_links it = JArr [JStr ''https://www.gov.uk/foreign-travel-advice/south-africa'']
        \<and> item_source it = JStr ''gov.uk'' \<and> item_title it = JStr govuk_title
        \<and> item_ts it \<noteq> JUndefined \<and> item_summary it \<noteq> JUndefined"
      by auto
    from govuk_adapt_exact [OF a] have "item_ts it =
                  or_js (get (or_js (get (or_js (get data ''details'') (JObj []))
                                       ''latest_update'') (JObj [])) ''published'')
                    (or_js (get data ''public_updated_at'') (JStr (iso_string env (now env))))
              \<and> item_summary it =
                  or_js (get (or_js (get data ''details'') (JObj [])) ''change_description'')
                    (or_js (get (or_js (get data ''details'') (JObj [])) ''summary'')
                       (JStr ''Travel advice''))"
      by simp
    with d s show ?thesis by blast
  qed
  have u: "(\<exists>s. item_id it = JStr s) \<and> item_severity it = JNum 3
        \<and> (\<exists>u. item_links it = JArr [u])
        \<and> item_source it = JStr ''travel.state.gov''
        \<and> (\<exists>s. item_ts it = JStr s) \<and> (\<exists>s. item_title it = JStr s \<and> s \<noteq> [])
        \<and> (\<exists>s. item_summary it = JStr s)"
    if "it \<in> set (body (usTravel env net))"
  proof -
    from that have "body (usTravel env net) \<noteq> []" by auto
    from usTravel_body_char [OF this] that obtain xs items where
      m: "mapE (usItem env) (filter (\<lambda>x. mentionsSA x = Inr True) xs) = Inr items"
      and i: "it \<in> set (take 5 items)" by auto
    from i have "it \<in> set items" by (rule in_set_takeD)
    from mapE_set [OF m this] obtain x where x: "mentionsSA x = Inr True" "usItem env x = Inr it"
      by auto
    from usItem_shape [OF x(2)] usItem_kept_shape [OF x(2) x(1)] show ?thesis by auto
  qed
  have r: "(\<exists>s. item_id it = JStr s) \<and> item_severity it \<in> {JNum 3, JNum 4}
        \<and> (\<exists>u. item_links it = JArr [u])
        \<and> item_source it = JStr ''reliefweb'' \<and> (\<exists>s. item_summary it = JStr s)"
    if "it \<in> set (body (reliefweb env net qry))"
    using that by (auto dest!: reliefweb_body_items rwItem_shape)
  have rr: "\<exists>data ds. getJson env (net (reliefweb_request qry)) = Inr data
             \<and> or_js (optprop data ''data'') (JArr []) = JArr ds
             \<and> map item_ts (body (reliefweb env net qry))
                 = map (\<lambda>d. get (or_js (get d ''fields'') (JObj [])) ''date.created'') ds
             \<and> map item_title (body (reliefweb env net qry))
                 = map (\<lambda>d. get (or_js (get d ''fields'') (JObj [])) ''title'') ds"
    if "body (reliefweb env net qry) \<noteq> []"
  proof -
    from reliefweb_body_char [OF that] obtain data ds where
      d: "getJson env (net (reliefweb_request qry)) = Inr data"
        "or_js (optprop data ''data'') (JArr []) = JArr ds"
      and m: "map rwItem ds = map Inr (body (reliefweb env net qry))" by blast
    have "map item_ts (body (reliefweb env net qry))
                 = map (\<lambda>d. get (or_js (get d ''fields'') (JObj [])) ''date.created'') ds"
      by (rule map_Inr_transfer [OF m]) (auto dest: rwItem_shape)
    moreover have "map item_title (body (reliefweb env net qry))
                 = map (\<lambda>d. get (or_js (get d ''fields'') (JObj [])) ''title'') ds"
      by (rule map_Inr_transfer [OF m]) (auto dest: rwItem_shape)
    ultimately show ?thesis using d by blast
  qed
  have d: "(\<exists>s. item_id it = JStr s) \<and> item_severity it \<in> {JNum 3, JNum 4, JNum 5}
        \<and> (\<exists>u. item_links it = JArr [u])
        \<and> item_source it = JStr ''gdelt'' \<and> (\<exists>s. item_ts it = JStr s)"
    if "it \<in> set (body (gdelt env net qry))"
    using that by (auto dest!: gdelt_body gdeltItem_shape)
  have dd: "\<exists>data arts. getJson env (net (gdelt_request qry)) = Inr data
             \<and> or_js (optprop data ''articles'') (JArr []) = JArr arts
             \<and> map item_title (body (gdelt env net qry)) = map (\<lambda>a. get a ''title'') arts
             \<and> length (body (gdelt env net qry)) = length arts
             \<and> (\<forall>i < length arts.
                   if truthy (get (arts ! i) ''sourceCountry'')
                   then \<exists>s. item_summary (body (gdelt env net qry) ! i) = JStr s
                   else item_summary (body (gdelt env net qry) ! i) = get (arts ! i) ''domain'')"
    if "body (gdelt env net qry) \<noteq> []"
  proof -
    from gdelt_body_char [OF that] obtain data arts where
      g: "getJson env (net (gdelt_request qry)) = Inr data"
        "or_js (optprop data ''articles'') (JArr []) = JArr arts"
      and m: "map (gdeltItem env) arts = map Inr (body (gdelt env net qry))" by blast
    have t: "map item_title (body (gdelt env net qry)) = map (\<lambda>a. get a ''title'') arts"
      by (rule map_Inr_transfer [OF m]) (auto dest: gdeltItem_shape)
    from m have len: "length (body (gdelt env net qry)) = length arts"
      by (metis length_map)
    have "if truthy (get (arts ! i) ''sourceCountry'')
                   then \<exists>s. item_summary (body (gdelt env net qry) ! i) = JStr s
                   else item_summary (body (gdelt env net qry) ! i) = get (arts ! i) ''domain''"
      if "i < length arts" for i
    proof -
      from m that len have "gdeltItem env (arts ! i) = Inr (body (gdelt env net qry) ! i)"
        by (metis nth_map)
      from gdeltItem_summary [OF this] show ?thesis
        by (auto split: if_splits)
    qed
    with g t len show ?thesis by blast
  qed
  have n: "item_severity (item ob) =
         (if item_severity ob = JUndefined \<or> item_severity ob = JNull then JNum 3
          else item_severity ob)
   \<and> item_links (item ob) = (if truthy (item_links ob) then item_links ob else JArr [])
   \<and> item_id (item ob) = item_id ob \<and> item_ts (item ob) = item_ts ob
   \<and> item_source (item ob) = item_source ob \<and> item_title (item ob) = item_title ob
   \<and> item_summary (item ob) = item_summary ob"
    by (simp add: item_def coalesce_def nullish_def or_js_def)
  have k: "{''id'', ''source'', ''severity'', ''links''} \<subseteq> set (json_keys it)"
    if "\<exists>s. item_id it = JStr s" "\<exists>s. item_source it = JStr s" "\<exists>n. item_severity it = JNum n"
       "\<exists>u. item_links it = JArr [u]"
    using that by (auto simp: json_keys_iff)
  have k2: "{''ts'', ''title'', ''summary''} \<subseteq> set (json_keys it)"
    if "item_ts it \<noteq> JUndefined" "item_title it \<noteq> JUndefined" "item_summary it \<noteq> JUndefined"
    using that by (auto simp: json_keys_iff)
  have all: "it \<in> set (body (govuk env net)) \<union> set (body (usTravel env net))
         \<union> set (body (reliefweb env net qry)) \<union> set (body (gdelt env net qry))
      \<Longrightarrow> (\<exists>s. item_id it = JStr s)
        \<and> (\<exists>s. item_source it = JStr s)
        \<and> item_severity it \<in> {JNum 3, JNum 4, JNum 5}
        \<and> (\<exists>u. item_links it = JArr [u])"
    using g u r d by auto
  have all_keys: "it \<in> set (body (govuk env net)) \<union> set (body (usTravel env net))
         \<union> set (body (reliefweb env net qry)) \<union> set (body (gdelt env net qry))
      \<Longrightarrow> {''id'', ''source'', ''severity'', ''links''} \<subseteq> set (json_keys it)"
    using all by (intro k) auto
  have gk: "it \<in> set (body (govuk env net))
      \<Longrightarrow> {''ts'', ''title'', ''summary''} \<subseteq> set (json_keys it)"
    using g by (intro k2) auto
  have c1: "it \<in> set (body (govuk env net)) \<union> set (body (usTravel env net))
         \<union> set (body (reliefweb env net qry)) \<union> set (body (gdelt env net qry))
      \<longrightarrow> (\<exists>s. item_id it = JStr s)
        \<and> item_severity it \<in> {JNum 3, JNum 4, JNum 5}
        \<and> (\<exists>u. item_links it = JArr [u])
        \<and> {''id'', ''source'', ''severity'', ''links''} \<subseteq> set (json_keys it)"
    using all all_keys by blast
  have c2: "it \<in> set (body (govuk env net))
      \<longrightarrow> item_source it = JStr ''gov.uk'' \<and> item_title it = JStr govuk_title
        \<and> item_severity it = JNum 3
        \<and> {''ts'', ''title'', ''summary''} \<subseteq> set (json_keys it)
        \<and> (\<exists>data. getJson env (net govuk_request) = Inr data
              \<and> item_ts it =
                  or_js (get (or_js (get (or_js (get data ''details'') (JObj []))
                                       ''latest_update'') (JObj [])) ''published'')
                    (or_js (get data ''public_updated_at'') (JStr (iso_string env (now env))))
              \<and> item_summary it =
                  or_js (get (or_js (get data ''details'') (JObj [])) ''change_description'')
                    (or_js (get (or_js (get data ''details'') (JObj [])) ''summary'')
                       (JStr ''Travel advice'')))"
    using g gk by blast
  have c3: "it \<in> set (body (usTravel env net))
      \<longrightarrow> item_source it = JStr ''travel.state.gov'' \<and> item_severity it = JNum 3
        \<and> (\<exists>s. item_ts it = JStr s) \<and> (\<exists>s. item_title it = JStr s \<and> s \<noteq> [])
        \<and> (\<exists>s. item_summary it = JStr s)"
    using u by blast
  have c4: "it \<in> set (body (reliefweb env net qry))
      \<longrightarrow> item_source it = JStr ''reliefweb'' \<and> item_severity it \<in> {JNum 3, JNum 4}
        \<and> (\<exists>s. item_summary it = JStr s)"
    using r by blast
  have c6: "it \<in> set (body (gdelt env net qry))
      \<longrightarrow> item_source it = JStr ''gdelt'' \<and> (\<exists>s. item_ts it = JStr s)"
    using d by blast
  from c1 c2 c3 c4 rr c6 dd n show ?thesis
    by (intro conjI impI) (assumption | blast)+
qed

text \<open>
  The sparse situation report: its item has the four keys and the tag of its adapter, and
  its ts and title are those of the record, which has none. An RSS item has the tag of
  the RSS adapter.
\<close>

theorem emitted_items_shape_witness:
  "body (reliefweb sample_env (\<lambda>r. Reply 200 sample_reports_text) Map.empty) \<noteq> []
   \<and> {''id'', ''source'', ''severity'', ''links''}
       \<subseteq> set (json_keys (hd (body (reliefweb sample_env (\<lambda>r. Reply 200 sample_reports_text)
                                      Map.empty))))
   \<and> item_source (hd (body (reliefweb sample_env (\<lambda>r. Reply 200 sample_reports_text)
                                      Map.empty))) = JStr ''reliefweb''
   \<and> map item_ts (body (reliefweb sample_env (\<lambda>r. Reply 200 sample_reports_text) Map.empty))
       = [JUndefined]
   \<and> map item_title (body (reliefweb sample_env (\<lambda>r. Reply 200 sample_reports_text) Map.empty))
       = [JUndefined]
   \<and> body (usTravel sample_env_feeds (\<lambda>r. Reply 200 sample_feed_links_text)) \<noteq> []
   \<and> item_source (hd (body (usTravel sample_env_feeds (\<lambda>r. Reply 200 sample_feed_links_text))))
       = JStr ''travel.state.gov''"
proof -
  let ?rw = "reliefweb sample_env (\<lambda>r. Reply 200 sample_reports_text) Map.empty"
  let ?us = "usTravel sample_env_feeds (\<lambda>r. Reply 200 sample_feed_links_text)"
  have ne: "body ?rw \<noteq> []" by code_simp
  then have mem: "hd (body ?rw) \<in> set (body ?rw)" by simp
  have ne2: "body ?us \<noteq> []" by code_simp
  then have mem2: "hd (body ?us) \<in> set (body ?us)" by simp
  have g: "getJson sample_env (Reply 200 sample_reports_text) = Inr sample_reports"
    by code_simp
  have ds: "or_js (optprop sample_reports ''data'') (JArr [])
              = JArr [JObj [(''id'', JStr ''7''),
        (''fields'', JObj [(''theme'', JArr [JObj [(''name'', JStr ''Health'')]]),
                           (''url'', JStr ''https://reliefweb.int/node/7'')])]]"
    by (simp add: sample_reports_def optprop_def nullish_def or_js_def)
  note th = emitted_items_shape
    [of "hd (body ?rw)" sample_env "\<lambda>r. Reply 200 sample_reports_text" Map.empty]
  note th2 = emitted_items_shape
    [of "hd (body ?us)" sample_env_feeds "\<lambda>r. Reply 200 sample_feed_links_text" Map.empty]
  from th mem have a: "{''id'', ''source'', ''severity'', ''links''} \<subseteq> set (json_keys (hd (body ?rw)))"
    by blast
  from th mem have b: "item_source (hd (body ?rw)) = JStr ''reliefweb''"
    by blast
  from th ne obtain data ds where "getJson sample_env (Reply 200 sample_reports_text) = Inr data"
    and "or_js (optprop data ''data'') (JArr []) = JArr ds"
    and t: "map item_ts (body ?rw)
                 = map (\<lambda>d. get (or_js (get d ''fields'') (JObj [])) ''date.created'') ds"
       "map item_title (body ?rw)
                 = map (\<lambda>d. get (or_js (get d ''fields'') (JObj [])) ''title'') ds"
    by blast
  with g ds have "ds = [JObj [(''id'', JStr ''7''),
        (''fields'', JObj [(''theme'', JArr [JObj [(''name'', JStr ''Health'')]]),
                           (''url'', JStr ''https://reliefweb.int/node/7'')])]]"
    by simp
  with t have c: "map item_ts (body ?rw) = [JUndefined]" "map item_title (body ?rw) = [JUndefined]"
    by (simp_all add: or_js_def)
  from th2 mem2 have d: "item_source (hd (body ?us)) = JStr ''travel.state.gov''"
    by blast
  from ne a b c ne2 d show ?thesis by blast
qed

subsection \<open>C10: the links of an emitted item\<close>

text \<open>
  Claim C10 says that every adapter supplies one link, with a static fallback URL where
  the upstream link may be absent. The news-events adapter passes \<^verbatim>\<open>[a.url]\<close>: for an
  article without \<^verbatim>\<open>url\<close> the one element is \<^verbatim>\<open>undefined\<close>, not a URL.
\<close>

theorem article_without_url_has_no_link:
  "map item_links (body (gdelt sample_env (\<lambda>r. Reply 200 sample_articles_text) Map.empty))
     = [JArr [JUndefined]]"
  by code_simp

text \<open>
  Claim C10 as amended. Every item of a response has a links sequence of exactly one
  element, so the empty default of the normalizer is never what is emitted. The
  travel-advice adapter supplies a static URL. The links of the RSS response are, in
  order, those of the first five channel items of the parsed feed that pass the filter:
  the first \<^verbatim>\<open>link\<close> of the item, or a static fallback when that is falsy. The links
  of the i-th situation report and of the i-th news item are the \<^verbatim>\<open>url\<close> of the i-th
  record of the reply as it is.
\<close>

theorem links_singleton:
  "(it \<in> set (body (govuk env net))
      \<longrightarrow> item_links it = JArr [JStr ''https://www.gov.uk/foreign-travel-advice/south-africa''])
   \<and> (body (usTravel env net) \<noteq> []
      \<longrightarrow> (\<exists>xml j xs. getText (net usTravel_request) = Inr xml \<and> parseXml env xml = Inr j
             \<and> rss_items j = JArr xs
             \<and> map item_links (body (usTravel env net))
                 = map (\<lambda>x. JArr [if truthy (optidx0 (get x ''link'')) then optidx0 (get x ''link'')
                                  else JStr ''https://travel.state.gov''])
                     (take 5 (filter (\<lambda>x. mentionsSA x = Inr True) xs))))
   \<and> (body (reliefweb env net qry) \<noteq> []
      \<longrightarrow> (\<exists>data ds. getJson env (net (reliefweb_request qry)) = Inr data
             \<and> or_js (optprop data ''data'') (JArr []) = JArr ds
             \<and> map item_links (body (reliefweb env net qry))
                 = map (\<lambda>d. JArr [get (or_js (get d ''fields'') (JObj [])) ''url'']) ds))
   \<and> (body (gdelt env net qry) \<noteq> []
      \<longrightarrow> (\<exists>data arts. getJson env (net (gdelt_request qry)) = Inr data
             \<and> or_js (optprop data ''articles'') (JArr []) = JArr arts
             \<and> map item_links (body (gdelt env net qry)) = map (\<lambda>a. JArr [get a ''url'']) arts))
   \<and> (it \<in> set (body (govuk env net)) \<union> set (body (usTravel env net))
         \<union> set (body (reliefweb env net qry)) \<union> set (body (gdelt env net qry))
      \<longrightarrow> (\<exists>u. item_links it = JArr [u]) \<and> item_links it \<noteq> JArr [])"
proof -
  have g: "it \<in> set (body (govuk env net)) \<Longrightarrow>
       item_links it = JArr [JStr ''https://www.gov.uk/foreign-travel-advice/south-africa'']"
    by (auto dest!: govuk_body govuk_adapt_shape)
  have u: "\<exists>xml j xs. getText (net usTravel_request) = Inr xml \<and> parseXml env xml = Inr j
             \<and> rss_items j = JArr xs
             \<and> map item_links (body (usTravel env net))
                 = map (\<lambda>x. JArr [if truthy (optidx0 (get x ''link'')) then optidx0 (get x ''link'')
                                  else JStr ''https://travel.state.gov''])
                     (take 5 (filter (\<lambda>x. mentionsSA x = Inr True) xs))"
    if "body (usTravel env net) \<noteq> []"
  proof -
    from usTravel_body_char [OF that] obtain xml j xs items where
      f: "getText (net usTravel_request) = Inr xml" "parseXml env xml = Inr j"
         "rss_items j = JArr xs"
      and m: "mapE (usItem env) (filter (\<lambda>x. mentionsSA x = Inr True) xs) = Inr items"
      and b: "body (usTravel env net) = take 5 items" by blast
    let ?kept = "filter (\<lambda>x. mentionsSA x = Inr True) xs"
    let ?h = "\<lambda>x. JArr [if truthy (optidx0 (get x ''link'')) then optidx0 (get x ''link'')
                                  else JStr ''https://travel.state.gov'']"
    from m have "map (usItem env) ?kept = map Inr items" by (simp add: mapE_eq_Inr)
    then have "map item_links items = map ?h ?kept"
      by (rule map_Inr_transfer) (auto simp: or_js_def dest!: usItem_shape)
    then have "map item_links (take 5 items) = map ?h (take 5 ?kept)"
      by (simp add: take_map [symmetric])
    with f b show ?thesis by auto
  qed
  have r: "\<exists>data ds. getJson env (net (reliefweb_request qry)) = Inr data
             \<and> or_js (optprop data ''data'') (JArr []) = JArr ds
             \<and> map item_links (body (reliefweb env net qry))
                 = map (\<lambda>d. JArr [get (or_js (get d ''fields'') (JObj [])) ''url'']) ds"
    if "body (reliefweb env net qry) \<noteq> []"
  proof -
    from reliefweb_body_char [OF that] obtain data ds where
      d: "getJson env (net (reliefweb_request qry)) = Inr data"
        "or_js (optprop data ''data'') (JArr []) = JArr ds"
      and m: "map rwItem ds = map Inr (body (reliefweb env net qry))" by blast
    have "map item_links (body (reliefweb env net qry))
                 = map (\<lambda>d. JArr [get (or_js (get d ''fields'') (JObj [])) ''url'']) ds"
      by (rule map_Inr_transfer [OF m]) (auto dest: rwItem_shape)
    with d show ?thesis by blast
  qed
  have d: "\<exists>data arts. getJson env (net (gdelt_request qry)) = Inr data
             \<and> or_js (optprop data ''articles'') (JArr []) = JArr arts
             \<and> map item_links (body (gdelt env net qry)) = map (\<lambda>a. JArr [get a ''url'']) arts"
    if "body (gdelt env net qry) \<noteq> []"
  proof -
    from gdelt_body_char [OF that] obtain data arts where
      g: "getJson env (net (gdelt_request qry)) = Inr data"
        "or_js (optprop data ''articles'') (JArr []) = JArr arts"
      and m: "map (gdeltItem env) arts = map Inr (body (gdelt env net qry))" by blast
    have "map item_links (body (gdelt env net qry)) = map (\<lambda>a. JArr [get a ''url'']) arts"
      by (rule map_Inr_transfer [OF m]) (auto dest: gdeltItem_shape)
    with g show ?thesis by blast
  qed
  have all: "it \<in> set (body (govuk env net)) \<union> set (body (usTravel env net))
         \<union> set (body (reliefweb env net qry)) \<union> set (body (gdelt env net qry))
      \<Longrightarrow> (\<exists>u. item_links it = JArr [u]) \<and> item_links it \<noteq> JArr []"
    using g by (auto dest!: usTravel_body usItem_shape reliefweb_body_items rwItem_shape
        gdelt_body gdeltItem_shape)
  from g u r d all show ?thesis
    by (intro conjI impI) (assumption | blast)+
qed

text \<open>
  One response of each endpoint: the static URL, an RSS item with a link and one with the
  fallback, the url of a situation report, and the url of a news article.
\<close>

theorem links_singleton_witness:
  "map item_links (body (govuk sample_env (\<lambda>r. Reply 200 sample_advice_text)))
     = [JArr [JStr ''https://www.gov.uk/foreign-travel-advice/south-africa'']]
   \<and> map item_links (body (usTravel sample_env_feeds (\<lambda>r. Reply 200 sample_feed_links_text)))
     = [JArr [JStr ''https://travel.state.gov/za''], JArr [JStr ''https://travel.state.gov'']]
   \<and> map item_links (body (reliefweb sample_env (\<lambda>r. Reply 200 sample_reports_text) Map.empty))
     = [JArr [JStr ''https://reliefweb.int/node/7'']]
   \<and> map item_links (body (gdelt sample_env_feeds (\<lambda>r. Reply 200 sample_articles_url_text)
                              (Map.empty(''hours'' \<mapsto> ''48''))))
     = [JArr [JStr ''https://example.org/a'']]"
proof -
  let ?gv = "govuk sample_env (\<lambda>r. Reply 200 sample_advice_text)"
  let ?us = "usTravel sample_env_feeds (\<lambda>r. Reply 200 sample_feed_links_text)"
  let ?rw = "reliefweb sample_env (\<lambda>r. Reply 200 sample_reports_text) Map.empty"
  have A: "map item_links (body ?gv)
     = [JArr [JStr ''https://www.gov.uk/foreign-travel-advice/south-africa'']]"
  proof -
    have "length (body ?gv) = 1" by code_simp
    then obtain it where b: "body ?gv = [it]"
      by (cases "body ?gv") auto
    then have "it \<in> set (body ?gv)" by simp
    with links_singleton [of it sample_env "\<lambda>r. Reply 200 sample_advice_text"]
    have "item_links it = JArr [JStr ''https://www.gov.uk/foreign-travel-advice/south-africa'']"
      by blast
    with b show ?thesis by simp
  qed
  have B: "map item_links (body ?us)
     = [JArr [JStr ''https://travel.state.gov/za''], JArr [JStr ''https://travel.state.gov'']]"
  proof -
    have ne: "body ?us \<noteq> []" by code_simp
    have t: "getText (Reply 200 sample_feed_links_text) = Inr sample_feed_links_text"
      by (simp add: getText_def res_ok_def)
    have p: "parseXml sample_env_feeds sample_feed_links_text = Inr sample_feed_links"
      by code_simp
    have v: "map (\<lambda>x. JArr [if truthy (optidx0 (get x ''link'')) then optidx0 (get x ''link'')
                                  else JStr ''https://travel.state.gov''])
               (take 5 (filter (\<lambda>x. mentionsSA x = Inr True)
                  (case rss_items sample_feed_links of JArr xs \<Rightarrow> xs | _ \<Rightarrow> [])))
         = [JArr [JStr ''https://travel.state.gov/za''], JArr [JStr ''https://travel.state.gov'']]"
      by code_simp
    from links_singleton [of _ sample_env_feeds "\<lambda>r. Reply 200 sample_feed_links_text",
        THEN conjunct2, THEN conjunct1] ne
    obtain xml j xs where "getText (Reply 200 sample_feed_links_text) = Inr xml"
      "parseXml sample_env_feeds xml = Inr j" "rss_items j = JArr xs"
      and m: "map item_links (body ?us)
          = map (\<lambda>x. JArr [if truthy (optidx0 (get x ''link'')) then optidx0 (get x ''link'')
                                  else JStr ''https://travel.state.gov''])
               (take 5 (filter (\<lambda>x. mentionsSA x = Inr True) xs))"
      by blast
    with t p have "rss_items sample_feed_links = JArr xs" by simp
    with v m show ?thesis by simp
  qed
  have C: "map item_links (body ?rw) = [JArr [JStr ''https://reliefweb.int/node/7'']]"
  proof -
    have ne: "body ?rw \<noteq> []" by code_simp
    have g: "getJson sample_env (Reply 200 sample_reports_text) = Inr sample_reports"
      by code_simp
    have v: "map (\<lambda>d. JArr [get (or_js (get d ''fields'') (JObj [])) ''url''])
               (case or_js (optprop sample_reports ''data'') (JArr []) of JArr ds \<Rightarrow> ds | _ \<Rightarrow> [])
         = [JArr [JStr ''https://reliefweb.int/node/7'']]"
      by code_simp
    from links_singleton [of _ sample_env "\<lambda>r. Reply 200 sample_reports_text" Map.empty,
        THEN conjunct2, THEN conjunct2, THEN conjunct1] ne
    obtain data ds where "getJson sample_env (Reply 200 sample_reports_text) = Inr data"
      "or_js (optprop data ''data'') (JArr []) = JArr ds"
      and m: "map item_links (body ?rw)
          = map (\<lambda>d. JArr [get (or_js (get d ''fields'') (JObj [])) ''url'']) ds"
      by blast
    with g have "or_js (optprop sample_reports ''data'') (JArr []) = JArr ds" by simp
    with v m show ?thesis by simp
  qed
  have D: "map item_links (body (gdelt sample_env_feeds (\<lambda>r. Reply 200 sample_articles_url_text)
                              (Map.empty(''hours'' \<mapsto> ''48''))))
             = [JArr [JStr ''https://example.org/a'']]"
  proof -
    let ?gd = "gdelt sample_env_feeds (\<lambda>r. Reply 200 sample_articles_url_text)
                 (Map.empty(''hours'' \<mapsto> ''48''))"
    have ne: "body ?gd \<noteq> []" by code_simp
    have g: "getJson sample_env_feeds (Reply 200 sample_articles_url_text) = Inr sample_articles_url"
      by code_simp
    have v: "map (\<lambda>a. JArr [get a ''url''])
               (case or_js (optprop sample_articles_url ''articles'') (JArr []) of
                  JArr arts \<Rightarrow> arts | _ \<Rightarrow> [])
         = [JArr [JStr ''https://example.org/a'']]"
      by code_simp
    from links_singleton [of _ sample_env_feeds "\<lambda>r. Reply 200 sample_articles_url_text"
        "Map.empty(''hours'' \<mapsto> ''48'')",
        THEN conjunct2, THEN conjunct2, THEN conjunct2, THEN conjunct1] ne
    obtain data arts where "getJson sample_env_feeds (Reply 200 sample_articles_url_text) = Inr data"
      "or_js (optprop data ''articles'') (JArr []) = JArr arts"
      and m: "map item_links (body ?gd) = map (\<lambda>a. JArr [get a ''url'']) arts"
      by blast
    with g have "or_js (optprop sample_articles_url ''articles'') (JArr []) = JArr arts" by simp
    with v m show ?thesis by simp
  qed
  from A B C D show ?thesis by blast
qed

end
